theory Spec2Isabelle
  imports Complex_Main
begin

section \<open>JavaScript values\<close>

text \<open>
  The service receives product records either as the parsed JSON body of a request or as
  the cells of a spreadsheet row, so a field of a record may hold any value JSON can carry,
  or \<open>undefined\<close> when the key (or the cell) is missing.

  A number is a double. Every operation this code applies to a number (\<open>isNaN\<close>,
  \<open>< 0\<close>, truthiness) treats \<open>-0\<close> as \<open>0\<close>, so the sign of zero is not kept, and a finite
  value is its exact rational.

  An array or a plain object is only ever converted to a primitive here (by \<open>isNaN\<close> and
  \<open>parseFloat\<close>), tested for truthiness, asked for its \<open>typeof\<close>, or asked for a
  \<open>trim\<close> method it does not have. For a value parsed from JSON both conversions end in
  its \<open>toString\<close> method, so an object is represented by the string that method yields,
  or by \<open>None\<close> when the conversion throws a TypeError (own non-callable \<open>toString\<close>).

  A \<open>string\<close> holds code units below 256; the white space and line terminators above that
  range are outside the type.
\<close>

datatype jsnum = NaN | PosInf | NegInf | Fin rat

datatype jsval =
    JUndefined
  | JNull
  | JBool bool
  | JNum jsnum
  | JStr string
  | JObject "string option"

fun truthy :: "jsval \<Rightarrow> bool" where
  "truthy JUndefined = False"
| "truthy JNull = False"
| "truthy (JBool b) = b"
| "truthy (JNum n) = (n \<noteq> NaN \<and> n \<noteq> Fin 0)"
| "truthy (JStr s) = (s \<noteq> [])"
| "truthy (JObject _) = True"

fun is_string :: "jsval \<Rightarrow> bool" where
  "is_string (JStr _) = True"
| "is_string _ = False"

subsection \<open>Strings: white space, trim, join\<close>

definition is_ws :: "char \<Rightarrow> bool" where
  "is_ws c \<longleftrightarrow> (of_char c :: nat) \<in> {9, 10, 11, 12, 13, 32, 160}"

definition trim_start :: "string \<Rightarrow> string" where
  "trim_start s = dropWhile is_ws s"

definition trim :: "string \<Rightarrow> string" where
  "trim s = rev (dropWhile is_ws (rev (dropWhile is_ws s)))"

fun join :: "string \<Rightarrow> string list \<Rightarrow> string" where
  "join sep [] = []"
| "join sep [x] = x"
| "join sep (x # y # ys) = x @ sep @ join sep (y # ys)"

subsection \<open>Numeric literals in strings\<close>

text \<open>
  \<open>StringToNumber\<close> (used by \<open>isNaN\<close>) and \<open>parseFloat\<close> both read the grammar
  \<open>StrDecimalLiteral\<close>: an optional sign, then \<open>Infinity\<close>, or digits with an optional
  fraction and an optional exponent. \<open>parseFloat\<close> takes the longest prefix of the
  start-trimmed string that is such a literal; \<open>StringToNumber\<close> wants the whole trimmed
  string to be one, or a \<open>0x\<close>, \<open>0o\<close>, \<open>0b\<close> integer, or empty (which is \<open>0\<close>).
\<close>

definition is_digit :: "char \<Rightarrow> bool" where
  "is_digit c \<longleftrightarrow> 48 \<le> (of_char c :: nat) \<and> (of_char c :: nat) \<le> 57"

definition digits_val :: "string \<Rightarrow> nat" where
  "digits_val ds = foldl (\<lambda>a c. 10 * a + (of_char c - 48)) 0 ds"

definition pow10 :: "int \<Rightarrow> rat" where
  "pow10 e = (if 0 \<le> e then 10 ^ nat e else 1 / 10 ^ nat (- e))"

text \<open>
  Rounding the mathematical value to a double. The code observes a parsed number only
  through \<open>isNaN\<close> and \<open>< 0\<close>, and rounding changes neither except by underflow to zero
  (at most half the least subnormal, \<open>2\<^sup>-\<^sup>1\<^sup>0\<^sup>7\<^sup>5\<close>, ties to even) and by overflow to an
  infinity; both are written out and every other value is kept exact.
\<close>

definition round_double :: "rat \<Rightarrow> jsnum" where
  "round_double v =
     (if \<bar>v\<bar> \<le> 1 / 2 ^ 1075 then Fin 0
      else if 2 ^ 1024 - 2 ^ 970 \<le> v then PosInf
      else if v \<le> - (2 ^ 1024 - 2 ^ 970) then NegInf
      else Fin v)"

fun signed_integer :: "string \<Rightarrow> (int \<times> string) option" where
  "signed_integer [] = None"
| "signed_integer (c # s) =
     (if c = CHR ''+'' \<or> c = CHR ''-'' then
        (if takeWhile is_digit s = [] then None
         else Some ((if c = CHR ''-'' then - 1 else 1) * int (digits_val (takeWhile is_digit s)),
                    dropWhile is_digit s))
      else if takeWhile is_digit (c # s) = [] then None
      else Some (int (digits_val (takeWhile is_digit (c # s))), dropWhile is_digit (c # s)))"

fun exponent_part :: "string \<Rightarrow> (int \<times> string) option" where
  "exponent_part [] = None"
| "exponent_part (c # s) =
     (if c = CHR ''e'' \<or> c = CHR ''E'' then signed_integer s else None)"

text \<open>
  The longest prefix that is a \<open>StrUnsignedDecimalLiteral\<close>, with what follows it:
  \<open>Some (None, rest)\<close> for \<open>Infinity\<close>, \<open>Some (Some v, rest)\<close> for digits of value \<open>v\<close>,
  \<open>None\<close> when no prefix is one.
\<close>

definition str_unsigned_decimal :: "string \<Rightarrow> (rat option \<times> string) option" where
  "str_unsigned_decimal s =
     (if take 8 s = ''Infinity'' then Some (None, drop 8 s)
      else
        let ip = takeWhile is_digit s;
            s1 = dropWhile is_digit s;
            dot = (s1 \<noteq> [] \<and> hd s1 = CHR ''.'');
            fp = (if dot then takeWhile is_digit (tl s1) else []);
            s2 = (if dot then dropWhile is_digit (tl s1) else s1)
        in if ip = [] \<and> fp = [] then None
           else (case exponent_part s2 of
                   None \<Rightarrow> Some (Some (of_nat (digits_val (ip @ fp)) * pow10 (- int (length fp))), s2)
                 | Some (e, s3) \<Rightarrow>
                     Some (Some (of_nat (digits_val (ip @ fp)) * pow10 (e - int (length fp))), s3)))"

definition str_decimal_literal :: "string \<Rightarrow> (jsnum \<times> string) option" where
  "str_decimal_literal s =
     (let neg = (s \<noteq> [] \<and> hd s = CHR ''-'');
          u = (if s \<noteq> [] \<and> (hd s = CHR ''-'' \<or> hd s = CHR ''+'') then tl s else s)
      in case str_unsigned_decimal u of
           None \<Rightarrow> None
         | Some (None, r) \<Rightarrow> Some (if neg then NegInf else PosInf, r)
         | Some (Some v, r) \<Rightarrow> Some (round_double (if neg then - v else v), r))"

definition radix_digit :: "nat \<Rightarrow> char \<Rightarrow> nat option" where
  "radix_digit r c =
     (let n = (of_char c :: nat);
          d = (if 48 \<le> n \<and> n \<le> 57 then Some (n - 48)
               else if 97 \<le> n \<and> n \<le> 102 then Some (n - 87)
               else if 65 \<le> n \<and> n \<le> 70 then Some (n - 55)
               else None)
      in case d of None \<Rightarrow> None | Some k \<Rightarrow> if k < r then Some k else None)"

fun radix_val :: "nat \<Rightarrow> nat \<Rightarrow> string \<Rightarrow> nat option" where
  "radix_val r a [] = Some a"
| "radix_val r a (c # s) =
     (case radix_digit r c of None \<Rightarrow> None | Some k \<Rightarrow> radix_val r (r * a + k) s)"

definition non_decimal_integer :: "string \<Rightarrow> nat option" where
  "non_decimal_integer s =
     (case s of
        z # x # d # ds \<Rightarrow>
          if z \<noteq> CHR ''0'' then None
          else if x = CHR ''x'' \<or> x = CHR ''X'' then radix_val 16 0 (d # ds)
          else if x = CHR ''o'' \<or> x = CHR ''O'' then radix_val 8 0 (d # ds)
          else if x = CHR ''b'' \<or> x = CHR ''B'' then radix_val 2 0 (d # ds)
          else None
      | _ \<Rightarrow> None)"

definition string_to_number :: "string \<Rightarrow> jsnum" where
  "string_to_number s =
     (let t = trim s in
      if t = [] then Fin 0
      else (case str_decimal_literal t of
              Some (n, []) \<Rightarrow> n
            | _ \<Rightarrow> (case non_decimal_integer t of
                      Some k \<Rightarrow> round_double (of_nat k)
                    | None \<Rightarrow> NaN)))"

definition parseFloat_string :: "string \<Rightarrow> jsnum" where
  "parseFloat_string s =
     (case str_decimal_literal (trim_start s) of None \<Rightarrow> NaN | Some (n, _) \<Rightarrow> n)"

subsection \<open>The built-ins \<open>isNaN\<close> and \<open>parseFloat\<close>\<close>

text \<open>
  \<open>ToNumber\<close> and \<open>parseFloat\<close> on any value; \<open>None\<close> is the TypeError of an object
  that has no primitive value. \<open>parseFloat\<close> of a number goes through its decimal
  representation, which reads back as the same number.
\<close>

fun ToNumber :: "jsval \<Rightarrow> jsnum option" where
  "ToNumber JUndefined = Some NaN"
| "ToNumber JNull = Some (Fin 0)"
| "ToNumber (JBool b) = Some (Fin (if b then 1 else 0))"
| "ToNumber (JNum n) = Some n"
| "ToNumber (JStr s) = Some (string_to_number s)"
| "ToNumber (JObject None) = None"
| "ToNumber (JObject (Some s)) = Some (string_to_number s)"

definition isNaN :: "jsval \<Rightarrow> bool option" where
  "isNaN v = map_option (\<lambda>n. n = NaN) (ToNumber v)"

fun parseFloat :: "jsval \<Rightarrow> jsnum option" where
  "parseFloat JUndefined = Some (parseFloat_string ''undefined'')"
| "parseFloat JNull = Some (parseFloat_string ''null'')"
| "parseFloat (JBool b) = Some (parseFloat_string (if b then ''true'' else ''false''))"
| "parseFloat (JNum n) = Some n"
| "parseFloat (JStr s) = Some (parseFloat_string s)"
| "parseFloat (JObject None) = None"
| "parseFloat (JObject (Some s)) = Some (parseFloat_string s)"

fun lt_zero :: "jsnum \<Rightarrow> bool" where
  "lt_zero NaN = False"
| "lt_zero PosInf = False"
| "lt_zero NegInf = True"
| "lt_zero (Fin r) = (r < 0)"

section \<open>Errors\<close>

text \<open>
  \<open>error-handler.js\<close> declares \<open>APIError\<close> and four subclasses. Each instance carries the
  message, the HTTP status code, a stable code string, the time of its construction and,
  for a \<open>ValidationError\<close>, the field it is about (\<open>null\<close> when none is given). Like every
  \<open>Error\<close> it also has the stack trace the engine captured.

  Anything else that can be thrown or handed to the error middleware (a TypeError, the
  provider client's own error, a body-parser error) is a \<open>foreign_error\<close>: what the code
  reads of it are the properties \<open>message\<close>, \<open>status\<close> and \<open>statusCode\<close>, each possibly
  undefined; a status, when there is one, is the integer of an HTTP status.
\<close>

datatype error_class = APIError | ValidationError | QuotaError | GoogleSheetsError | OpenAIError

record api_error =
  cls :: error_class
  message :: string
  statusCode :: int
  code :: string
  timestamp :: string
  field :: "string option"
  stack :: string

record foreign_error =
  f_message :: "string option"
  f_status :: "int option"
  f_statusCode :: "int option"
  f_stack :: "string option"

datatype js_error = Api api_error | Foreign foreign_error

definition TypeError :: "string \<Rightarrow> string \<Rightarrow> js_error" where
  "TypeError msg trace =
     Foreign \<lparr>f_message = Some msg, f_status = None, f_statusCode = None, f_stack = Some trace\<rparr>"

section \<open>The environment: provider, clock, engine\<close>

datatype contentType = title | bulletPoints | aContent | adCopy

record productData =
  sku :: jsval
  name :: jsval
  category :: jsval
  features :: jsval
  price :: jsval
  audience :: jsval
  useCase :: jsval

text \<open>
  What the body of the \<open>try\<close> block in \<open>generateContent\<close> does is decided outside the
  program: the provider answers with the text of the first choice, or something is thrown
  (by the provider client, or by the prompt template or the reading of a malformed
  response). The prompt is a function of the content type and the record, so the provider
  is given those. It may answer differently each time: it is indexed by the number of
  calls made before. What is thrown is a value whose properties can be read (not \<open>null\<close>
  or \<open>undefined\<close>, which nothing here throws).

  \<open>new Date().toISOString()\<close> and the stack trace of a new error are read from the
  environment as well, indexed by the number of such readings made before.
\<close>

datatype outcome = Responded string | Threw foreign_error

record env =
  provider :: "nat \<Rightarrow> contentType \<Rightarrow> productData \<Rightarrow> outcome"
  clock :: "nat \<Rightarrow> string"
  trace :: "nat \<Rightarrow> string"

record world =
  calls :: "(contentType \<times> productData) list"
  ticks :: nat

definition tick :: "world \<Rightarrow> world" where
  "tick w = w\<lparr>ticks := Suc (ticks w)\<rparr>"

subsection \<open>Constructors of the error classes\<close>

text \<open>
  A constructor reads the clock and the stack trace once. An argument the class gives a
  default value is an option: \<open>None\<close> is the argument left out.
\<close>

definition new_APIError ::
  "env \<Rightarrow> world \<Rightarrow> error_class \<Rightarrow> string \<Rightarrow> int \<Rightarrow> string \<Rightarrow> api_error \<times> world" where
  "new_APIError en w c msg sc cd =
     (\<lparr>cls = c, message = msg, statusCode = sc, code = cd,
       timestamp = clock en (ticks w), field = None, stack = trace en (ticks w)\<rparr>,
      tick w)"

definition new_ValidationError ::
  "env \<Rightarrow> world \<Rightarrow> string \<Rightarrow> string option \<Rightarrow> api_error \<times> world" where
  "new_ValidationError en w msg fld =
     (let (e, w') = new_APIError en w ValidationError msg 400 ''VALIDATION_ERROR''
      in (e\<lparr>field := fld\<rparr>, w'))"

definition new_QuotaError :: "env \<Rightarrow> world \<Rightarrow> string option \<Rightarrow> api_error \<times> world" where
  "new_QuotaError en w msg =
     new_APIError en w QuotaError
       (case msg of
          None \<Rightarrow> ''API quota exceeded. Please check your plan and billing details.''
        | Some m \<Rightarrow> m)
       429 ''QUOTA_EXCEEDED''"

definition new_OpenAIError ::
  "env \<Rightarrow> world \<Rightarrow> string \<Rightarrow> int option \<Rightarrow> api_error \<times> world" where
  "new_OpenAIError en w msg sc =
     new_APIError en w OpenAIError msg (case sc of None \<Rightarrow> 500 | Some n \<Rightarrow> n)
       ''OPENAI_ERROR''"

section \<open>Validation of a product record\<close>

text \<open>
  \<open>!v || v.trim() === ''\<close>: a falsy value is missing; a truthy string is blank when
  trimming leaves nothing; any other truthy value has no \<open>trim\<close> method and the call
  throws a TypeError (\<open>None\<close>).
\<close>

fun missing_or_blank :: "jsval \<Rightarrow> bool option" where
  "missing_or_blank (JStr s) = Some (s = [] \<or> trim s = [])"
| "missing_or_blank v = (if truthy v then None else Some True)"

text \<open>
  \<open>v !== undefined && (isNaN(v) || parseFloat(v) < 0)\<close>, evaluated left to right with
  short circuit; \<open>None\<close> is the TypeError of a conversion.
\<close>

definition price_rejected :: "jsval \<Rightarrow> bool option" where
  "price_rejected v =
     (if v = JUndefined then Some False
      else (case isNaN v of
              None \<Rightarrow> None
            | Some True \<Rightarrow> Some True
            | Some False \<Rightarrow> map_option lt_zero (parseFloat v)))"

definition features_rejected :: "jsval \<Rightarrow> bool" where
  "features_rejected v \<longleftrightarrow> truthy v \<and> \<not> is_string v"

text \<open>
  \<open>validateProductData\<close> pushes one message per failed check onto \<open>errors\<close>, in the order
  name, category, price, features, and throws one \<open>ValidationError\<close> with the messages
  joined when there is any. A TypeError raised by a check leaves at once.
\<close>

definition validateProductData ::
  "env \<Rightarrow> world \<Rightarrow> productData \<Rightarrow> (js_error + unit) \<times> world" where
  "validateProductData en w d =
     (case missing_or_blank (name d) of
        None \<Rightarrow>
          (Inl (TypeError ''data.name.trim is not a function'' (trace en (ticks w))), tick w)
      | Some b1 \<Rightarrow>
     (let errors1 = (if b1 then [''Product name is required''] else []) in
      case missing_or_blank (category d) of
        None \<Rightarrow>
          (Inl (TypeError ''data.category.trim is not a function'' (trace en (ticks w))), tick w)
      | Some b2 \<Rightarrow>
     (let errors2 = (if b2 then errors1 @ [''Product category is required''] else errors1) in
      case price_rejected (price d) of
        None \<Rightarrow>
          (Inl (TypeError ''Cannot convert object to primitive value'' (trace en (ticks w))),
           tick w)
      | Some b3 \<Rightarrow>
     (let errors3 = (if b3 then errors2 @ [''Product price must be a valid positive number'']
                     else errors2);
          errors4 = (if features_rejected (features d)
                     then errors3 @ [''Product features must be a string''] else errors3)
      in if length errors4 > 0
         then (let (e, w') = new_ValidationError en w (join ''; '' errors4) None
               in (Inl (Api e), w'))
         else (Inr (), w)))))"

section \<open>Content generation\<close>

fun contentType_name :: "contentType \<Rightarrow> string" where
  "contentType_name title = ''title''"
| "contentType_name bulletPoints = ''bulletPoints''"
| "contentType_name aContent = ''aContent''"
| "contentType_name adCopy = ''adCopy''"

text \<open>A template literal prints an undefined \<open>error.message\<close> as \<open>undefined\<close>.\<close>

definition template_string :: "string option \<Rightarrow> string" where
  "template_string m = (case m of None \<Rightarrow> ''undefined'' | Some s \<Rightarrow> s)"

text \<open>
  \<open>generateContent\<close>: one attempt for one content type. The attempt is logged in
  \<open>calls\<close>; a response is returned trimmed; whatever is thrown is classified by its
  \<open>status\<close>.
\<close>

definition generateContent ::
  "env \<Rightarrow> world \<Rightarrow> contentType \<Rightarrow> productData \<Rightarrow> (api_error + string) \<times> world" where
  "generateContent en w ct d =
     (let w1 = w\<lparr>calls := calls w @ [(ct, d)]\<rparr> in
      case provider en (length (calls w)) ct d of
        Responded content \<Rightarrow> (Inr (trim content), w1)
      | Threw error \<Rightarrow>
          if f_status error = Some 429 then
            (let (e, w2) = new_QuotaError en w1 None in (Inl e, w2))
          else if f_status error = Some 401 then
            (let (e, w2) = new_OpenAIError en w1 ''Invalid OpenAI API key'' (Some 401)
             in (Inl e, w2))
          else
            (let (e, w2) = new_OpenAIError en w1
                 (''Failed to generate '' @ contentType_name ct @ '': ''
                    @ template_string (f_message error)) None
             in (Inl e, w2)))"

record generation_result =
  productName :: jsval
  status :: string
  data :: "contentType \<rightharpoonup> string"
  errors :: "(contentType \<times> string) list option"
  timestamp :: string

definition contentTypes :: "contentType list" where
  "contentTypes = [title, bulletPoints, aContent, adCopy]"

text \<open>
  The loop \<open>for (const contentType of contentTypes)\<close> of \<open>generateAllContent\<close>, with
  its two accumulators \<open>results\<close> and \<open>errors\<close>: the inner \<open>catch\<close> turns whatever
  \<open>generateContent\<close> throws into an entry of \<open>errors\<close> and the loop goes on.
\<close>

fun for_contentTypes ::
  "env \<Rightarrow> productData \<Rightarrow> contentType list
     \<Rightarrow> (contentType \<rightharpoonup> string) \<times> (contentType \<times> string) list \<times> world
     \<Rightarrow> (contentType \<rightharpoonup> string) \<times> (contentType \<times> string) list \<times> world" where
  "for_contentTypes en d [] acc = acc"
| "for_contentTypes en d (ct # cts) (results, errs, w) =
     (case generateContent en w ct d of
        (Inr text, w') \<Rightarrow> for_contentTypes en d cts (results(ct \<mapsto> text), errs, w')
      | (Inl error, w') \<Rightarrow>
          for_contentTypes en d cts (results, errs @ [(ct, message error)], w'))"

text \<open>
  \<open>generateAllContent\<close>: the outer \<open>catch\<close> rethrows, so an error of the validation
  leaves the function; otherwise the four content types are generated and the result
  is returned.
\<close>

definition generateAllContent ::
  "env \<Rightarrow> world \<Rightarrow> productData \<Rightarrow> (js_error + generation_result) \<times> world" where
  "generateAllContent en w d =
     (case validateProductData en w d of
        (Inl error, w1) \<Rightarrow> (Inl error, w1)
      | (Inr _, w1) \<Rightarrow>
          (let (results, errs, w2) = for_contentTypes en d contentTypes (Map.empty, [], w1)
           in (Inr \<lparr>productName = name d,
                    status = (if length errs = 0 then ''success'' else ''partial_success''),
                    data = results,
                    errors = (if length errs > 0 then Some errs else None),
                    timestamp = clock en (ticks w2)\<rparr>,
               tick w2)))"

section \<open>The batch\<close>

text \<open>
  The row loop of \<open>POST /api/process-products\<close>: the first row is the header and is
  skipped; every other row becomes a record by column position (a missing cell is
  \<open>undefined\<close>) and its result is pushed onto \<open>results\<close>. An error thrown by
  \<open>generateAllContent\<close> leaves the loop for the \<open>catch\<close> of the handler.
\<close>

definition cell :: "jsval list \<Rightarrow> nat \<Rightarrow> jsval" where
  "cell row i = (if i < length row then row ! i else JUndefined)"

definition row_productData :: "jsval list \<Rightarrow> productData" where
  "row_productData row =
     \<lparr>sku = cell row 0, name = cell row 1, category = cell row 2, features = cell row 3,
      price = cell row 4, audience = cell row 5, useCase = cell row 6\<rparr>"

fun for_productRows ::
  "env \<Rightarrow> world \<Rightarrow> jsval list list \<Rightarrow> generation_result list
     \<Rightarrow> (js_error + generation_result list) \<times> world" where
  "for_productRows en w [] results = (Inr results, w)"
| "for_productRows en w (row # rows) results =
     (case generateAllContent en w (row_productData row) of
        (Inl error, w') \<Rightarrow> (Inl error, w')
      | (Inr result, w') \<Rightarrow> for_productRows en w' rows (results @ [result]))"

definition processBatch ::
  "env \<Rightarrow> world \<Rightarrow> jsval list list \<Rightarrow> (js_error + generation_result list) \<times> world" where
  "processBatch en w rows = for_productRows en w (drop 1 rows) []"

section \<open>Formatting errors\<close>

text \<open>
  The payload is the object literal \<open>formatErrorResponse\<close> returns, as the list of its
  keys with their values; \<open>error.field || undefined\<close> and \<open>error.message || '...'\<close>
  take the right operand for an empty string as for a missing one.
\<close>

type_synonym payload = "(string \<times> jsval) list"

definition or_undefined :: "string option \<Rightarrow> jsval" where
  "or_undefined f =
     (case f of None \<Rightarrow> JUndefined | Some s \<Rightarrow> if s = [] then JUndefined else JStr s)"

definition or_default :: "string option \<Rightarrow> string \<Rightarrow> string" where
  "or_default m dflt = (case m of None \<Rightarrow> dflt | Some s \<Rightarrow> if s = [] then dflt else s)"

definition status_at_least_500 :: "int option \<Rightarrow> bool" where
  "status_at_least_500 st = (case st of None \<Rightarrow> False | Some n \<Rightarrow> 500 \<le> n)"

definition formatErrorResponse :: "env \<Rightarrow> world \<Rightarrow> js_error \<Rightarrow> payload \<times> world" where
  "formatErrorResponse en w error =
     (case error of
        Api e \<Rightarrow>
          ([(''error'', JStr (message e)), (''code'', JStr (code e)),
            (''field'', or_undefined (field e)),
            (''timestamp'', JStr (api_error.timestamp e))], w)
      | Foreign e \<Rightarrow>
          if f_status e = Some 429 then
            ([(''error'', JStr ''API quota exceeded. Please check your plan and billing details.''),
              (''code'', JStr ''QUOTA_EXCEEDED''),
              (''timestamp'', JStr (clock en (ticks w)))], tick w)
          else if f_status e = Some 401 then
            ([(''error'', JStr ''Invalid API credentials. Please check your authentication.''),
              (''code'', JStr ''AUTH_ERROR''),
              (''timestamp'', JStr (clock en (ticks w)))], tick w)
          else if status_at_least_500 (f_status e) then
            ([(''error'', JStr ''External API error. Please try again later.''),
              (''code'', JStr ''EXTERNAL_ERROR''),
              (''timestamp'', JStr (clock en (ticks w)))], tick w)
          else
            ([(''error'', JStr (or_default (f_message e) ''An unexpected error occurred'')),
              (''code'', JStr ''UNKNOWN_ERROR''),
              (''timestamp'', JStr (clock en (ticks w)))], tick w))"

text \<open>
  \<open>errorHandler\<close> answers with the status \<open>err.statusCode || 500\<close> and the formatted
  payload. (It also logs the error, stack included, on the server's console, which is
  not part of the answer.)
\<close>

definition errorHandler :: "env \<Rightarrow> world \<Rightarrow> js_error \<Rightarrow> (int \<times> payload) \<times> world" where
  "errorHandler en w err =
     (let sc = (case err of
                  Api e \<Rightarrow> if statusCode e = 0 then 500 else statusCode e
                | Foreign e \<Rightarrow> (case f_statusCode e of
                                 None \<Rightarrow> 500
                               | Some n \<Rightarrow> if n = 0 then 500 else n));
          (errorResponse, w') = formatErrorResponse en w err
      in ((sc, errorResponse), w'))"

section \<open>Vocabulary of the properties\<close>

text \<open>The entries of \<open>errors\<close>, which the result leaves undefined when there are none.\<close>

definition failures :: "generation_result \<Rightarrow> (contentType \<times> string) list" where
  "failures r = (case errors r of None \<Rightarrow> [] | Some es \<Rightarrow> es)"

fun threw :: "outcome \<Rightarrow> bool" where
  "threw (Threw _) = True"
| "threw (Responded _) = False"

text \<open>
  The four checks of the validator as conditions on the record: the messages of the
  checks that fire, in the order of the code, and the records on which no check fires
  and none throws.
\<close>

definition violations :: "productData \<Rightarrow> string list" where
  "violations d =
     (if missing_or_blank (name d) = Some True then [''Product name is required''] else [])
     @ (if missing_or_blank (category d) = Some True
        then [''Product category is required''] else [])
     @ (if price_rejected (price d) = Some True
        then [''Product price must be a valid positive number''] else [])
     @ (if features_rejected (features d) then [''Product features must be a string''] else [])"

definition passes_validation :: "productData \<Rightarrow> bool" where
  "passes_validation d \<longleftrightarrow>
     missing_or_blank (name d) = Some False \<and> missing_or_blank (category d) = Some False
     \<and> price_rejected (price d) = Some False \<and> \<not> features_rejected (features d)"

text \<open>
  The message of the error \<open>generateContent\<close> throws for what its attempt threw, and,
  for the attempt of a content type at a position of the log: its entry in \<open>errors\<close>
  when it throws, the content type itself when it responds.
\<close>

definition thrown_message :: "contentType \<Rightarrow> foreign_error \<Rightarrow> string" where
  "thrown_message ct e =
     (if f_status e = Some 429
      then ''API quota exceeded. Please check your plan and billing details.''
      else if f_status e = Some 401 then ''Invalid OpenAI API key''
      else ''Failed to generate '' @ contentType_name ct @ '': ''
             @ template_string (f_message e))"

definition failure_entry ::
  "env \<Rightarrow> productData \<Rightarrow> nat \<times> contentType \<Rightarrow> (contentType \<times> string) option" where
  "failure_entry en d p =
     (case provider en (fst p) (snd p) d of
        Threw e \<Rightarrow> Some (snd p, thrown_message (snd p) e)
      | Responded _ \<Rightarrow> None)"

definition success_entry ::
  "env \<Rightarrow> productData \<Rightarrow> nat \<times> contentType \<Rightarrow> contentType option" where
  "success_entry en d p =
     (case provider en (fst p) (snd p) d of Threw _ \<Rightarrow> None | Responded _ \<Rightarrow> Some (snd p))"

text \<open>The attempts one row gives rise to, and the rows that pass validation.\<close>

definition row_calls :: "jsval list \<Rightarrow> (contentType \<times> productData) list" where
  "row_calls row = map (\<lambda>k. (k, row_productData row)) contentTypes"

definition row_passes :: "jsval list \<Rightarrow> bool" where
  "row_passes row = passes_validation (row_productData row)"

text \<open>
  Whether one string occurs inside another, as \<open>String.prototype.includes\<close> decides it.
\<close>

fun starts_with :: "string \<Rightarrow> string \<Rightarrow> bool" where
  "starts_with s [] = True"
| "starts_with [] (p # ps) = False"
| "starts_with (c # s) (p # ps) = (c = p \<and> starts_with s ps)"

fun mentions :: "string \<Rightarrow> string \<Rightarrow> bool" where
  "mentions [] part = starts_with [] part"
| "mentions (c # s) part = (starts_with (c # s) part \<or> mentions s part)"

section \<open>Scenarios\<close>

text \<open>Records: one that passes validation, and variants of it.\<close>

definition lamp :: productData where
  "lamp = \<lparr>sku = JStr ''SKU-1'', name = JStr ''Desk Lamp'', category = JStr ''Lighting'',
     features = JStr ''LED, dimmable'', price = JStr ''19.99'', audience = JUndefined,
     useCase = JUndefined\<rparr>"

definition three_violations :: productData where
  "three_violations =
     lamp\<lparr>name := JStr ''  '', price := JStr ''-5'', features := JNum (Fin 42)\<rparr>"

definition numeric_features :: productData where
  "numeric_features = lamp\<lparr>features := JNum (Fin 42)\<rparr>"

definition null_price_numeric_features :: productData where
  "null_price_numeric_features = lamp\<lparr>price := JNull, features := JNum (Fin 42)\<rparr>"

text \<open>The world before anything happened, and what a provider may throw.\<close>

definition start :: world where
  "start = \<lparr>calls = [], ticks = 0\<rparr>"

definition server_error :: foreign_error where
  "server_error = \<lparr>f_message = Some ''upstream timeout'', f_status = Some 503,
     f_statusCode = None, f_stack = Some ''Error: upstream timeout at request''\<rparr>"

definition unauthorized :: foreign_error where
  "unauthorized = \<lparr>f_message = Some ''Incorrect API key provided'', f_status = Some 401,
     f_statusCode = None, f_stack = Some ''Error: 401 at request''\<rparr>"

definition rate_limited :: foreign_error where
  "rate_limited = \<lparr>f_message = Some ''Rate limit reached'', f_status = Some 429,
     f_statusCode = None, f_stack = Some ''Error: 429 at request''\<rparr>"

text \<open>Errors that are no \<open>APIError\<close>: a TypeError, and a thrown value without properties.\<close>

definition not_a_function :: foreign_error where
  "not_a_function = \<lparr>f_message = Some ''x is not a function'', f_status = None,
     f_statusCode = None, f_stack = Some ''TypeError: x is not a function at handler''\<rparr>"

definition thrown_string :: foreign_error where
  "thrown_string = \<lparr>f_message = None, f_status = None, f_statusCode = None, f_stack = None\<rparr>"

text \<open>
  Environments in which the provider answers by content type alone, at a fixed time.
\<close>

definition env_of :: "(contentType \<Rightarrow> outcome) \<Rightarrow> env" where
  "env_of f = \<lparr>provider = (\<lambda>i k d. f k), clock = (\<lambda>i. ''2024-05-01T10:00:00.000Z''),
     trace = (\<lambda>i. ''Error at server.js'')\<rparr>"

definition all_respond :: env where
  "all_respond = env_of (\<lambda>k. Responded '' Generated copy '')"

definition adCopy_fails :: env where
  "adCopy_fails =
     env_of (\<lambda>k. if k = adCopy then Threw server_error else Responded '' Generated copy '')"

definition title_unauthorized :: env where
  "title_unauthorized =
     env_of (\<lambda>k. if k = title then Threw unauthorized else Responded '' Generated copy '')"

definition all_fail :: env where
  "all_fail = env_of (\<lambda>k. Threw server_error)"

definition quota_exhausted :: env where
  "quota_exhausted = env_of (\<lambda>k. Threw rate_limited)"

text \<open>Rows of a sheet.\<close>

definition header_row :: "jsval list" where
  "header_row =
     [JStr ''SKU'', JStr ''Name'', JStr ''Category'', JStr ''Features'', JStr ''Price'']"

definition lamp_row :: "jsval list" where
  "lamp_row = [JStr ''SKU-1'', JStr ''Desk Lamp'', JStr ''Lighting'', JStr ''LED, dimmable'',
     JStr ''19.99'']"

definition nameless_row :: "jsval list" where
  "nameless_row = [JStr ''SKU-2'', JStr [], JStr ''Lighting'']"

definition chair_row :: "jsval list" where
  "chair_row = [JStr ''SKU-3'', JStr ''Chair'', JStr ''Furniture'']"

section \<open>Properties of the validator\<close>

lemma missing_or_blank_defined:
  "missing_or_blank v \<noteq> None \<longleftrightarrow> is_string v \<or> \<not> truthy v"
  by (cases v) auto

lemma price_rejected_defined:
  "price_rejected v \<noteq> None \<longleftrightarrow> v \<noteq> JObject None"
proof (cases v)
  case (JObject x)
  then show ?thesis by (cases x) (auto simp: price_rejected_def isNaN_def split: bool.splits)
qed (auto simp: price_rejected_def isNaN_def split: bool.splits)

lemma price_rejected_number:
  "price_rejected (JNum n) = Some (n = NaN \<or> lt_zero n)"
  by (cases n) (simp_all add: price_rejected_def isNaN_def)

lemma trim_not_Nil: "trim n \<noteq> [] \<Longrightarrow> n \<noteq> []"
  by (auto simp: trim_def)

lemma validate_passes:
  "passes_validation d \<Longrightarrow> validateProductData en w d = (Inr (), w)"
  by (simp add: passes_validation_def validateProductData_def)

lemma validate_fails:
  "\<not> passes_validation d \<Longrightarrow> \<exists>e. validateProductData en w d = (Inl e, tick w)"
  by (auto simp: passes_validation_def validateProductData_def new_ValidationError_def
        new_APIError_def Let_def split: option.splits)

lemma validate_Inr_iff:
  "fst (validateProductData en w d) = Inr () \<longleftrightarrow> passes_validation d"
proof (cases "passes_validation d")
  case True
  then show ?thesis by (simp add: validate_passes)
next
  case False
  from validate_fails [OF this, of en w] False show ?thesis by auto
qed

lemma validate_violations:
  assumes "missing_or_blank (name d) \<noteq> None" "missing_or_blank (category d) \<noteq> None"
    "price_rejected (price d) \<noteq> None"
  shows "validateProductData en w d =
     (if violations d = [] then (Inr (), w)
      else (Inl (Api \<lparr>cls = ValidationError, message = join ''; '' (violations d),
               statusCode = 400, code = ''VALIDATION_ERROR'', timestamp = clock en (ticks w),
               field = None, stack = trace en (ticks w)\<rparr>), tick w))"
  using assms
  by (auto simp: violations_def validateProductData_def new_ValidationError_def
        new_APIError_def Let_def split: option.splits)

lemma validate_calls: "calls (snd (validateProductData en w d)) = calls w"
  by (auto simp: validateProductData_def new_ValidationError_def new_APIError_def Let_def tick_def
        split: option.splits)

subsection \<open>Evaluating the literals of the scenarios\<close>

text \<open>
  A value between a hundredth and a million in absolute value is far from both ends of the
  range of doubles, so rounding keeps it.
\<close>

lemma underflow_bound_small: "(1::rat) / 2 ^ 1075 < 1 / 100"
proof -
  have "(2::rat) ^ 7 \<le> 2 ^ 1075" by (rule power_increasing) simp_all
  then have "(100::rat) < 2 ^ 1075" by simp
  then show ?thesis by (simp add: field_simps)
qed

lemma overflow_bound_large: "(1000000::rat) < 2 ^ 1024 - 2 ^ 970"
proof -
  have "(2::rat) ^ 1024 = 2 ^ 54 * 2 ^ 970" by (simp flip: power_add)
  then have e: "(2::rat) ^ 1024 - 2 ^ 970 = (2 ^ 54 - 1) * 2 ^ 970" by (simp add: algebra_simps)
  have "(2::rat) ^ 20 \<le> 2 ^ 970" by (rule power_increasing) simp_all
  then have a: "(1000000::rat) < 2 ^ 970" by simp
  have "(1::rat) \<le> 2 ^ 54 - 1" by simp
  then have "(1::rat) * 2 ^ 970 \<le> (2 ^ 54 - 1) * 2 ^ 970"
    by (rule mult_right_mono) simp
  with a e show ?thesis by simp
qed

lemma round_double_moderate:
  assumes "1 / 100 \<le> \<bar>v\<bar>" "\<bar>v\<bar> \<le> 1000000"
  shows "round_double v = Fin v"
  using assms underflow_bound_small overflow_bound_large by (simp add: round_double_def abs_if split: if_splits)

lemmas literal_defs = string_to_number_def parseFloat_string_def trim_def trim_start_def is_ws_def
  str_decimal_literal_def str_unsigned_decimal_def non_decimal_integer_def is_digit_def
  digits_val_def pow10_def

lemma price_19_99: "price_rejected (JStr ''19.99'') = Some False"
  by (simp add: price_rejected_def isNaN_def literal_defs round_double_moderate)

lemma price_minus_5: "price_rejected (JStr ''-5'') = Some True"
  by (simp add: price_rejected_def isNaN_def literal_defs round_double_moderate)

lemma price_empty: "price_rejected (JStr []) = Some False"
  by (simp add: price_rejected_def isNaN_def literal_defs)

lemma price_null: "price_rejected JNull = Some False"
  by (simp add: price_rejected_def isNaN_def literal_defs)

lemma lamp_passes: "passes_validation lamp"
  by (simp add: passes_validation_def lamp_def price_19_99 features_rejected_def trim_def is_ws_def)

lemma lamp_violations: "violations lamp = []"
  using lamp_passes by (simp add: violations_def passes_validation_def)

lemma three_violations_list:
  "violations three_violations =
     [''Product name is required'', ''Product price must be a valid positive number'',
      ''Product features must be a string'']"
  by (simp add: violations_def three_violations_def lamp_def price_minus_5 features_rejected_def
      trim_def is_ws_def)

lemma lamp_row_record: "row_productData lamp_row = lamp"
  by (simp add: row_productData_def lamp_row_def lamp_def cell_def)

lemma chair_row_passes: "passes_validation (row_productData chair_row)"
  by (simp add: passes_validation_def row_productData_def chair_row_def cell_def
      price_rejected_def features_rejected_def trim_def is_ws_def)

lemma nameless_row_fails: "\<not> passes_validation (row_productData nameless_row)"
  by (simp add: passes_validation_def row_productData_def nameless_row_def cell_def)

lemma starts_with_append: "starts_with (part @ b) part"
  by (induction part) simp_all

lemma starts_with_mentions: "starts_with s part \<Longrightarrow> mentions s part"
  by (cases s) simp_all

lemma mentions_append: "mentions (a @ part @ b) part"
  by (induction a) (simp_all add: starts_with_append starts_with_mentions)

lemma mentions_price:
  "mentions (''Product price must be a valid positive number'' @ rest) ''price''"
  using mentions_append [of "''Product ''" "''price''" "'' must be a valid positive number'' @ rest"]
  by simp

section \<open>Properties of content generation\<close>

lemma generateContent_calls:
  "calls (snd (generateContent en w ct d)) = calls w @ [(ct, d)]"
  by (simp add: generateContent_def new_QuotaError_def new_OpenAIError_def new_APIError_def
        tick_def Let_def split: outcome.splits)

lemma generateContent_Responded:
  "provider en (length (calls w)) ct d = Responded t \<Longrightarrow>
   fst (generateContent en w ct d) = Inr (trim t)"
  by (simp add: generateContent_def Let_def)

lemma generateContent_Threw:
  "provider en (length (calls w)) ct d = Threw e \<Longrightarrow>
   \<exists>a. fst (generateContent en w ct d) = Inl a \<and> message a = thrown_message ct e"
  by (simp add: generateContent_def new_QuotaError_def new_OpenAIError_def new_APIError_def
        Let_def thrown_message_def)

text \<open>
  The loop over the content types in closed form: the log grows by one attempt per content
  type, \<open>errors\<close> by the entries of the attempts that throw, and the keys of \<open>results\<close>
  by the content types of the attempts that respond.
\<close>

lemma for_contentTypes_closed:
  "for_contentTypes en d cts (results, errs, w) = (results', errs', w') \<Longrightarrow>
     calls w' = calls w @ map (\<lambda>k. (k, d)) cts
   \<and> errs' = errs @ List.map_filter (failure_entry en d) (enumerate (length (calls w)) cts)
   \<and> dom results' = dom results
        \<union> set (List.map_filter (success_entry en d) (enumerate (length (calls w)) cts))"
proof (induction cts arbitrary: results errs w)
  case Nil
  then show ?case by simp
next
  case (Cons ct cts)
  obtain x w1 where g: "generateContent en w ct d = (x, w1)"
    by (cases "generateContent en w ct d")
  from generateContent_calls [of en w ct d] g
  have c1: "calls w1 = calls w @ [(ct, d)]" by simp
  show ?case
  proof (cases "provider en (length (calls w)) ct d")
    case (Responded t)
    with generateContent_Responded [of en w ct d t] g have x: "x = Inr (trim t)" by simp
    from Cons.prems g x
    have "for_contentTypes en d cts (results(ct \<mapsto> trim t), errs, w1) = (results', errs', w')"
      by simp
    note ih = Cons.IH [OF this]
    have hd1: "List.map_filter (failure_entry en d) (enumerate (length (calls w)) (ct # cts))
        = List.map_filter (failure_entry en d) (enumerate (Suc (length (calls w))) cts)"
      using Responded by (simp add: failure_entry_def)
    have hd2: "List.map_filter (success_entry en d) (enumerate (length (calls w)) (ct # cts))
        = ct # List.map_filter (success_entry en d) (enumerate (Suc (length (calls w))) cts)"
      using Responded by (simp add: success_entry_def)
    from ih have i3: "dom results' = dom (results(ct \<mapsto> trim t)) \<union>
       set (List.map_filter (success_entry en d) (enumerate (length (calls w1)) cts))"
      by blast
    have i3': "dom results' = insert ct (dom results) \<union>
       set (List.map_filter (success_entry en d) (enumerate (length (calls w1)) cts))"
      unfolding i3 by simp
    from ih have i12: "calls w' = calls w1 @ map (\<lambda>k. (k, d)) cts"
      "errs' = errs @ List.map_filter (failure_entry en d) (enumerate (length (calls w1)) cts)"
      by blast+
    from i12 i3' c1 show ?thesis
      unfolding hd1 hd2 by simp
  next
    case (Threw e)
    with generateContent_Threw [of en w ct d e] g
    obtain a where x: "x = Inl a" and m: "message a = thrown_message ct e" by auto
    from Cons.prems g x
    have "for_contentTypes en d cts (results, errs @ [(ct, message a)], w1) = (results', errs', w')"
      by simp
    note ih = Cons.IH [OF this]
    have hd1: "List.map_filter (failure_entry en d) (enumerate (length (calls w)) (ct # cts))
        = (ct, message a) # List.map_filter (failure_entry en d) (enumerate (Suc (length (calls w))) cts)"
      using Threw m by (simp add: failure_entry_def)
    have hd2: "List.map_filter (success_entry en d) (enumerate (length (calls w)) (ct # cts))
        = List.map_filter (success_entry en d) (enumerate (Suc (length (calls w))) cts)"
      using Threw by (simp add: success_entry_def)
    from ih have i123: "calls w' = calls w1 @ map (\<lambda>k. (k, d)) cts"
      "errs' = (errs @ [(ct, message a)])
         @ List.map_filter (failure_entry en d) (enumerate (length (calls w1)) cts)"
      "dom results' = dom results \<union>
         set (List.map_filter (success_entry en d) (enumerate (length (calls w1)) cts))"
      by blast+
    from i123 c1 show ?thesis
      unfolding hd1 hd2 by simp
  qed
qed

lemma for_contentTypes_frame:
  "for_contentTypes en d cts (results, errs, w) = (results', errs', w') \<Longrightarrow> k \<notin> set cts \<Longrightarrow>
   results' k = results k"
proof (induction cts arbitrary: results errs w)
  case Nil
  then show ?case by simp
next
  case (Cons ct cts)
  obtain x w1 where g: "generateContent en w ct d = (x, w1)"
    by (cases "generateContent en w ct d")
  from Cons.prems have k: "k \<noteq> ct" "k \<notin> set cts" by auto
  show ?case
  proof (cases x)
    case (Inl a)
    with Cons.prems g
    have "for_contentTypes en d cts (results, errs @ [(ct, message a)], w1) = (results', errs', w')"
      by simp
    from Cons.IH [OF this k(2)] show ?thesis .
  next
    case (Inr t)
    with Cons.prems g
    have "for_contentTypes en d cts (results(ct \<mapsto> t), errs, w1) = (results', errs', w')"
      by simp
    from Cons.IH [OF this k(2)] k(1) show ?thesis by simp
  qed
qed

lemma for_contentTypes_values:
  "for_contentTypes en d cts (results, errs, w) = (results', errs', w') \<Longrightarrow> distinct cts \<Longrightarrow>
   i < length cts \<Longrightarrow> provider en (length (calls w) + i) (cts ! i) d = Responded t \<Longrightarrow>
   results' (cts ! i) = Some (trim t)"
proof (induction cts arbitrary: i results errs w)
  case Nil
  then show ?case by simp
next
  case (Cons ct cts)
  obtain x w1 where g: "generateContent en w ct d = (x, w1)"
    by (cases "generateContent en w ct d")
  from generateContent_calls [of en w ct d] g
  have c1: "length (calls w1) = Suc (length (calls w))" by simp
  from Cons.prems(2) have dc: "ct \<notin> set cts" "distinct cts" by auto
  show ?case
  proof (cases i)
    case 0
    with Cons.prems(4) have "provider en (length (calls w)) ct d = Responded t" by simp
    with generateContent_Responded [of en w ct d t] g have "x = Inr (trim t)" by simp
    with Cons.prems(1) g
    have "for_contentTypes en d cts (results(ct \<mapsto> trim t), errs, w1) = (results', errs', w')"
      by simp
    from for_contentTypes_frame [OF this dc(1)] 0 show ?thesis by simp
  next
    case (Suc j)
    with Cons.prems(3) have j: "j < length cts" by simp
    from Suc Cons.prems(4) c1
    have p: "provider en (length (calls w1) + j) (cts ! j) d = Responded t" by simp
    show ?thesis
    proof (cases x)
      case (Inl a)
      with Cons.prems(1) g
      have "for_contentTypes en d cts (results, errs @ [(ct, message a)], w1) = (results', errs', w')"
        by simp
      from Cons.IH [OF this dc(2) j p] Suc show ?thesis by simp
    next
      case (Inr u)
      with Cons.prems(1) g
      have "for_contentTypes en d cts (results(ct \<mapsto> u), errs, w1) = (results', errs', w')"
        by simp
      from Cons.IH [OF this dc(2) j p] Suc show ?thesis by simp
    qed
  qed
qed

lemma enumerate_contentTypes:
  "enumerate n contentTypes = [(n, title), (n + 1, bulletPoints), (n + 2, aContent), (n + 3, adCopy)]"
  by (simp add: contentTypes_def)

lemma less_4_cases: "i < 4 \<Longrightarrow> i = 0 \<or> i = 1 \<or> i = 2 \<or> i = (3::nat)"
  by arith

lemma generateAllContent_summary:
  assumes "passes_validation d"
  shows "\<exists>r w'. generateAllContent en w d = (Inr r, w')
     \<and> productName r = name d
     \<and> failures r = List.map_filter (failure_entry en d) (enumerate (length (calls w)) contentTypes)
     \<and> dom (data r) = set (List.map_filter (success_entry en d) (enumerate (length (calls w)) contentTypes))
     \<and> (\<forall>i t. i < 4 \<longrightarrow> provider en (length (calls w) + i) (contentTypes ! i) d = Responded t
            \<longrightarrow> data r (contentTypes ! i) = Some (trim t))
     \<and> status r = (if failures r = [] then ''success'' else ''partial_success'')
     \<and> errors r = (if failures r = [] then None else Some (failures r))
     \<and> calls w' = calls w @ map (\<lambda>k. (k, d)) contentTypes"
proof -
  obtain results errs w2
    where l: "for_contentTypes en d contentTypes (Map.empty, [], w) = (results, errs, w2)"
    by (cases "for_contentTypes en d contentTypes (Map.empty, [], w)")
  define r where "r = \<lparr>productName = name d,
             status = (if length errs = 0 then ''success'' else ''partial_success''),
             data = results, errors = (if length errs > 0 then Some errs else None),
             timestamp = clock en (ticks w2)\<rparr>"
  from assms l have g: "generateAllContent en w d = (Inr r, tick w2)"
    by (simp add: generateAllContent_def validate_passes r_def)
  have f: "failures r = errs" by (simp add: failures_def r_def)
  have r1: "productName r = name d" "data r = results"
    "status r = (if errs = [] then ''success'' else ''partial_success'')"
    "errors r = (if errs = [] then None else Some errs)"
    by (simp_all add: r_def)
  from for_contentTypes_closed [OF l]
  have c: "calls w2 = calls w @ map (\<lambda>k. (k, d)) contentTypes"
    "errs = List.map_filter (failure_entry en d) (enumerate (length (calls w)) contentTypes)"
    "dom results = set (List.map_filter (success_entry en d) (enumerate (length (calls w)) contentTypes))"
    by simp_all
  have v: "\<forall>i t. i < 4 \<longrightarrow> provider en (length (calls w) + i) (contentTypes ! i) d = Responded t
            \<longrightarrow> results (contentTypes ! i) = Some (trim t)"
    using for_contentTypes_values [OF l] by (simp add: contentTypes_def)
  have t: "calls (tick w2) = calls w2" by (simp add: tick_def)
  show ?thesis
  proof (intro exI conjI)
    show "generateAllContent en w d = (Inr r, tick w2)" by (rule g)
    show "productName r = name d" by (rule r1)
    show "failures r = List.map_filter (failure_entry en d) (enumerate (length (calls w)) contentTypes)"
      unfolding f by (rule c)
    show "dom (data r) = set (List.map_filter (success_entry en d) (enumerate (length (calls w)) contentTypes))"
      unfolding r1 by (rule c)
    show "\<forall>i t. i < 4 \<longrightarrow> provider en (length (calls w) + i) (contentTypes ! i) d = Responded t
            \<longrightarrow> data r (contentTypes ! i) = Some (trim t)"
      unfolding r1 by (rule v)
    show "status r = (if failures r = [] then ''success'' else ''partial_success'')"
      unfolding f by (rule r1)
    show "errors r = (if failures r = [] then None else Some (failures r))"
      unfolding f by (rule r1)
    show "calls (tick w2) = calls w @ map (\<lambda>k. (k, d)) contentTypes"
      unfolding t by (rule c)
  qed
qed

lemma generateAllContent_fails:
  "\<not> passes_validation d \<Longrightarrow> \<exists>e. generateAllContent en w d = (Inl e, tick w)"
  using validate_fails [of d en w] by (auto simp: generateAllContent_def)

text \<open>
  The loop over the rows in closed form: it processes the rows that pass validation up to
  the first one that does not, and returns results only when there is none.
\<close>

lemma for_productRows_closed:
  "\<exists>w'. calls w' = calls w @ concat (map row_calls (takeWhile row_passes rows))
     \<and> (if list_all row_passes rows
         then \<exists>rs. for_productRows en w rows results = (Inr (results @ rs), w')
                \<and> length rs = length rows
                \<and> map productName rs = map (\<lambda>row. cell row 1) rows
         else \<exists>e. for_productRows en w rows results = (Inl e, w'))"
proof (induction rows arbitrary: w results)
  case Nil
  show ?case by (rule exI [of _ w]) simp
next
  case (Cons row rows)
  show ?case
  proof (cases "row_passes row")
    case True
    then have "passes_validation (row_productData row)" by (simp add: row_passes_def)
    from generateAllContent_summary [OF this, of en w]
    obtain r w1 where g: "generateAllContent en w (row_productData row) = (Inr r, w1)"
      and n: "productName r = name (row_productData row)"
      and c: "calls w1 = calls w @ map (\<lambda>k. (k, row_productData row)) contentTypes"
      by blast
    from Cons.IH [of w1 "results @ [r]"]
    obtain w' where c': "calls w' = calls w1 @ concat (map row_calls (takeWhile row_passes rows))"
      and r: "if list_all row_passes rows
         then \<exists>rs. for_productRows en w1 rows (results @ [r]) = (Inr ((results @ [r]) @ rs), w')
                \<and> length rs = length rows
                \<and> map productName rs = map (\<lambda>row. cell row 1) rows
         else \<exists>e. for_productRows en w1 rows (results @ [r]) = (Inl e, w')"
      by blast
    have step: "for_productRows en w (row # rows) results
                 = for_productRows en w1 rows (results @ [r])"
      using g by simp
    have nm: "productName r = cell row 1"
      using n by (simp add: row_productData_def)
    have cc: "calls w' = calls w @ concat (map row_calls (takeWhile row_passes (row # rows)))"
      using c c' True by (simp add: row_calls_def)
    show ?thesis
    proof (cases "list_all row_passes rows")
      case all: True
      with r obtain rs
        where "for_productRows en w1 rows (results @ [r]) = (Inr ((results @ [r]) @ rs), w')"
          "length rs = length rows" "map productName rs = map (\<lambda>row. cell row 1) rows"
        by auto
      with step nm
      have "for_productRows en w (row # rows) results = (Inr (results @ (r # rs)), w')
            \<and> length (r # rs) = length (row # rows)
            \<and> map productName (r # rs) = map (\<lambda>row. cell row 1) (row # rows)"
        by simp
      then have "\<exists>rs. for_productRows en w (row # rows) results = (Inr (results @ rs), w')
            \<and> length rs = length (row # rows)
            \<and> map productName rs = map (\<lambda>row. cell row 1) (row # rows)"
        by (rule exI)
      with cc True all show ?thesis by auto
    next
      case none: False
      with r step have "\<exists>e. for_productRows en w (row # rows) results = (Inl e, w')"
        by simp
      with cc True none show ?thesis by auto
    qed
  next
    case False
    then have "\<not> passes_validation (row_productData row)" by (simp add: row_passes_def)
    from generateAllContent_fails [OF this, of en w]
    obtain e where "generateAllContent en w (row_productData row) = (Inl e, tick w)" by blast
    then have "for_productRows en w (row # rows) results = (Inl e, tick w)" by simp
    with False show ?thesis
      by (intro exI [of _ "tick w"]) (auto simp: tick_def)
  qed
qed

section \<open>The claims\<close>

text \<open>
  Claim C1, as the code has it. For a table of a header row and \<open>N\<close> data rows, the loop
  skips the header and processes the data rows in order up to the first one that fails
  validation: the attempts logged are those of the rows before it, row by row. When every
  data row passes validation the loop returns \<open>N\<close> results in the order of the rows, the
  \<open>i\<close>-th carrying the name of the \<open>i\<close>-th data row. When some data row fails
  validation the loop returns no results: the error is thrown to the handler.
\<close>

theorem processBatch_row_loop:
  "\<exists>w'. calls w' = calls w @ concat (map row_calls
              (takeWhile (\<lambda>row. fst (validateProductData en w (row_productData row)) = Inr ())
                 data_rows))
     \<and> ((\<forall>row\<in>set data_rows. fst (validateProductData en w (row_productData row)) = Inr ()) \<longrightarrow>
          (\<exists>results. processBatch en w (header # data_rows) = (Inr results, w')
             \<and> length results = length data_rows
             \<and> map productName results = map (\<lambda>row. cell row 1) data_rows))
     \<and> ((\<exists>row\<in>set data_rows. fst (validateProductData en w (row_productData row)) \<noteq> Inr ()) \<longrightarrow>
          (\<exists>e. processBatch en w (header # data_rows) = (Inl e, w')))"
proof -
  have p: "row_passes = (\<lambda>row. fst (validateProductData en w (row_productData row)) = Inr ())"
    by (rule ext) (simp add: row_passes_def validate_Inr_iff)
  from for_productRows_closed [of w data_rows en "[]"]
  obtain w' where c: "calls w' = calls w @ concat (map row_calls (takeWhile row_passes data_rows))"
    and r: "if list_all row_passes data_rows
         then \<exists>rs. for_productRows en w data_rows [] = (Inr ([] @ rs), w')
                \<and> length rs = length data_rows
                \<and> map productName rs = map (\<lambda>row. cell row 1) data_rows
         else \<exists>e. for_productRows en w data_rows [] = (Inl e, w')"
    by blast
  have d: "processBatch en w (header # data_rows) = for_productRows en w data_rows []"
    by (simp add: processBatch_def)
  show ?thesis
  proof (intro exI [of _ w'] conjI impI)
    show "calls w' = calls w @ concat (map row_calls
              (takeWhile (\<lambda>row. fst (validateProductData en w (row_productData row)) = Inr ())
                 data_rows))"
      using c unfolding p .
  next
    assume "\<forall>row\<in>set data_rows. fst (validateProductData en w (row_productData row)) = Inr ()"
    then have "list_all row_passes data_rows" by (simp add: list_all_iff p)
    with r d show "\<exists>results. processBatch en w (header # data_rows) = (Inr results, w')
             \<and> length results = length data_rows
             \<and> map productName results = map (\<lambda>row. cell row 1) data_rows"
      by simp
  next
    assume "\<exists>row\<in>set data_rows. fst (validateProductData en w (row_productData row)) \<noteq> Inr ()"
    then have "\<not> list_all row_passes data_rows" by (simp add: list_all_iff p)
    with r d show "\<exists>e. processBatch en w (header # data_rows) = (Inl e, w')"
      by simp
  qed
qed

theorem processBatch_row_loop_witness:
  "fst (validateProductData all_respond start (row_productData lamp_row)) = Inr ()
   \<and> fst (validateProductData all_respond start (row_productData chair_row)) = Inr ()
   \<and> (\<exists>results w'.
         processBatch all_respond start [header_row, lamp_row, chair_row] = (Inr results, w')
         \<and> length results = 2
         \<and> map productName results = [JStr ''Desk Lamp'', JStr ''Chair''])
   \<and> fst (validateProductData all_respond start (row_productData nameless_row)) \<noteq> Inr ()
   \<and> (\<exists>e w'.
         processBatch all_respond start [header_row, lamp_row, nameless_row, chair_row]
           = (Inl e, w')
         \<and> calls w' = row_calls lamp_row)"
proof -
  have a: "fst (validateProductData all_respond start (row_productData lamp_row)) = Inr ()"
    by (simp add: validate_Inr_iff lamp_row_record lamp_passes)
  have b: "fst (validateProductData all_respond start (row_productData chair_row)) = Inr ()"
    by (simp add: validate_Inr_iff chair_row_passes)
  have n: "fst (validateProductData all_respond start (row_productData nameless_row)) \<noteq> Inr ()"
    by (simp add: validate_Inr_iff nameless_row_fails)
  from processBatch_row_loop [of start all_respond "[lamp_row, chair_row]" header_row] a b
  have 1: "\<exists>results w'.
         processBatch all_respond start [header_row, lamp_row, chair_row] = (Inr results, w')
         \<and> length results = 2
         \<and> map productName results = [JStr ''Desk Lamp'', JStr ''Chair'']"
    by (auto simp: cell_def lamp_row_def chair_row_def)
  from processBatch_row_loop
         [of start all_respond "[lamp_row, nameless_row, chair_row]" header_row] a n
  have 2: "\<exists>e w'.
         processBatch all_respond start [header_row, lamp_row, nameless_row, chair_row]
           = (Inl e, w')
         \<and> calls w' = row_calls lamp_row"
    by (auto simp: start_def)
  from a b n 1 2 show ?thesis by simp
qed

theorem processBatch_aborts_on_invalid_row_counterexample:
  "fst (processBatch all_respond start [header_row, lamp_row, nameless_row, chair_row]) =
     Inl (Api \<lparr>cls = ValidationError, message = ''Product name is required'',
               statusCode = 400, code = ''VALIDATION_ERROR'',
               timestamp = ''2024-05-01T10:00:00.000Z'', field = None,
               stack = ''Error at server.js''\<rparr>)
   \<and> map fst (calls (snd (processBatch all_respond start
                             [header_row, lamp_row, nameless_row, chair_row])))
       = [title, bulletPoints, aContent, adCopy]"
proof -
  let ?w = "\<lparr>calls = [(title, lamp), (bulletPoints, lamp), (aContent, lamp), (adCopy, lamp)],
            ticks = Suc 0\<rparr>"
  have "\<exists>r. generateAllContent all_respond start (row_productData lamp_row) = (Inr r, ?w)"
    unfolding lamp_row_record
    by (simp add: generateAllContent_def validate_passes lamp_passes contentTypes_def
        generateContent_def all_respond_def env_of_def start_def tick_def)
  then obtain r where a: "generateAllContent all_respond start (row_productData lamp_row) = (Inr r, ?w)"
    by blast
  have b: "generateAllContent all_respond ?w (row_productData nameless_row) =
     (Inl (Api \<lparr>cls = ValidationError, message = ''Product name is required'',
               statusCode = 400, code = ''VALIDATION_ERROR'',
               timestamp = ''2024-05-01T10:00:00.000Z'', field = None,
               stack = ''Error at server.js''\<rparr>), tick ?w)"
    by (simp add: generateAllContent_def validateProductData_def row_productData_def
        nameless_row_def cell_def price_rejected_def features_rejected_def
        new_ValidationError_def new_APIError_def all_respond_def env_of_def trim_def is_ws_def)
  show ?thesis
    by (simp add: processBatch_def a b tick_def)
qed

text \<open>
  Claim C2. For a record that passes validation, \<open>generateAllContent\<close> returns a result
  in which every content type is either a key of \<open>data\<close> (with its text) or the content
  type of an entry of \<open>errors\<close>, never both and never neither, and no content type has
  two entries.
\<close>

theorem generateAllContent_accounts_for_every_kind:
  assumes "fst (validateProductData en w d) = Inr ()"
  shows "\<exists>r w'. generateAllContent en w d = (Inr r, w')
     \<and> (\<forall>k. (k \<in> dom (data r)) \<noteq> (k \<in> fst ` set (failures r)))
     \<and> distinct (map fst (failures r))"
proof -
  from assms have "passes_validation d" by (simp add: validate_Inr_iff)
  from generateAllContent_summary [OF this, of en w]
  obtain r w' where g: "generateAllContent en w d = (Inr r, w')"
    and f: "failures r = List.map_filter (failure_entry en d) (enumerate (length (calls w)) contentTypes)"
    and s: "dom (data r) = set (List.map_filter (success_entry en d) (enumerate (length (calls w)) contentTypes))"
    by blast
  have "(k \<in> dom (data r)) \<noteq> (k \<in> fst ` set (failures r))" for k
    unfolding f s enumerate_contentTypes
    by (cases k) (auto simp: failure_entry_def success_entry_def split: outcome.splits)
  moreover have "distinct (map fst (failures r))"
    unfolding f enumerate_contentTypes
    by (simp add: failure_entry_def split: outcome.splits)
  ultimately show ?thesis using g by blast
qed

theorem generateAllContent_accounts_for_every_kind_witness:
  "fst (validateProductData adCopy_fails start lamp) = Inr ()
   \<and> (\<exists>r w'. generateAllContent adCopy_fails start lamp = (Inr r, w')
        \<and> (\<forall>k. (k \<in> dom (data r)) \<noteq> (k \<in> fst ` set (failures r)))
        \<and> distinct (map fst (failures r)))"
proof -
  have h: "fst (validateProductData adCopy_fails start lamp) = Inr ()"
    by (simp add: validate_passes lamp_passes)
  from h generateAllContent_accounts_for_every_kind [OF h] show ?thesis by simp
qed

text \<open>
  Claim C3. For a record that passes validation, the four content types are all attempted,
  in order, whatever each attempt gives; a content type is in the list of failures exactly
  when its attempt threw, and every attempt that responded has its trimmed text in
  \<open>data\<close>. When only the \<open>adCopy\<close> attempt throws, the three other texts are there and
  the single failure is the one of \<open>adCopy\<close>.
\<close>

theorem generateAllContent_isolates_failures:
  assumes "fst (validateProductData en w d) = Inr ()"
  shows "\<exists>r w'. generateAllContent en w d = (Inr r, w')
     \<and> calls w' = calls w @ [(title, d), (bulletPoints, d), (aContent, d), (adCopy, d)]
     \<and> (\<forall>i<4. threw (provider en (length (calls w) + i) (contentTypes ! i) d)
                = (contentTypes ! i \<in> fst ` set (failures r)))
     \<and> (\<forall>i<4. \<forall>t. provider en (length (calls w) + i) (contentTypes ! i) d = Responded t
                \<longrightarrow> data r (contentTypes ! i) = Some (trim t))
     \<and> (provider en (length (calls w)) title d = Responded t1
          \<and> provider en (length (calls w) + 1) bulletPoints d = Responded t2
          \<and> provider en (length (calls w) + 2) aContent d = Responded t3
          \<and> provider en (length (calls w) + 3) adCopy d = Threw e
        \<longrightarrow> data r title = Some (trim t1) \<and> data r bulletPoints = Some (trim t2)
            \<and> data r aContent = Some (trim t3) \<and> data r adCopy = None
            \<and> (\<exists>m. failures r = [(adCopy, m)]) \<and> status r = ''partial_success'')"
proof -
  from assms have "passes_validation d" by (simp add: validate_Inr_iff)
  from generateAllContent_summary [OF this, of en w]
  obtain r w' where g: "generateAllContent en w d = (Inr r, w')"
    and f: "failures r = List.map_filter (failure_entry en d) (enumerate (length (calls w)) contentTypes)"
    and s: "dom (data r) = set (List.map_filter (success_entry en d) (enumerate (length (calls w)) contentTypes))"
    and v: "\<forall>i t. i < 4 \<longrightarrow> provider en (length (calls w) + i) (contentTypes ! i) d = Responded t
            \<longrightarrow> data r (contentTypes ! i) = Some (trim t)"
    and st: "status r = (if failures r = [] then ''success'' else ''partial_success'')"
    and c: "calls w' = calls w @ map (\<lambda>k. (k, d)) contentTypes"
    by blast
  have c': "calls w' = calls w @ [(title, d), (bulletPoints, d), (aContent, d), (adCopy, d)]"
    using c by (simp add: contentTypes_def)
  have t: "threw (provider en (length (calls w) + i) (contentTypes ! i) d)
             = (contentTypes ! i \<in> fst ` set (failures r))" if "i < 4" for i
    using less_4_cases [OF that] unfolding f enumerate_contentTypes
    by (auto simp: contentTypes_def failure_entry_def split: outcome.splits)
  have a: "data r title = Some (trim t1) \<and> data r bulletPoints = Some (trim t2)
            \<and> data r aContent = Some (trim t3) \<and> data r adCopy = None
            \<and> (\<exists>m. failures r = [(adCopy, m)]) \<and> status r = ''partial_success''"
    if p: "provider en (length (calls w)) title d = Responded t1"
      "provider en (length (calls w) + 1) bulletPoints d = Responded t2"
      "provider en (length (calls w) + 2) aContent d = Responded t3"
      "provider en (length (calls w) + 3) adCopy d = Threw e"
  proof -
    from v [rule_format, of 0 t1] p(1) have 1: "data r title = Some (trim t1)"
      by (simp add: contentTypes_def)
    from v [rule_format, of 1 t2] p(2) have 2: "data r bulletPoints = Some (trim t2)"
      by (simp add: contentTypes_def)
    from v [rule_format, of 2 t3] p(3) have 3: "data r aContent = Some (trim t3)"
      by (simp add: contentTypes_def)
    from p have fl: "failures r = [(adCopy, thrown_message adCopy e)]"
      unfolding f enumerate_contentTypes by (simp add: failure_entry_def)
    from p have "dom (data r) = {title, bulletPoints, aContent}"
      unfolding s enumerate_contentTypes by (simp add: success_entry_def)
    then have 4: "data r adCopy = None" by (auto simp: dom_def)
    from 1 2 3 4 fl st show ?thesis by simp
  qed
  from g c' t v a show ?thesis by blast
qed

theorem generateAllContent_isolates_failures_witness:
  "fst (validateProductData adCopy_fails start lamp) = Inr ()
   \<and> (\<exists>r w'. generateAllContent adCopy_fails start lamp = (Inr r, w')
     \<and> calls w' = [(title, lamp), (bulletPoints, lamp), (aContent, lamp), (adCopy, lamp)]
     \<and> data r title = Some ''Generated copy'' \<and> data r bulletPoints = Some ''Generated copy''
     \<and> data r aContent = Some ''Generated copy'' \<and> data r adCopy = None
     \<and> (\<exists>m. failures r = [(adCopy, m)]) \<and> status r = ''partial_success'')"
proof -
  have h: "fst (validateProductData adCopy_fails start lamp) = Inr ()"
    by (simp add: validate_passes lamp_passes)
  have t: "trim '' Generated copy '' = ''Generated copy''"
    by (simp add: trim_def is_ws_def)
  have p: "provider adCopy_fails (length (calls start)) title lamp = Responded '' Generated copy ''"
    "provider adCopy_fails (length (calls start) + 1) bulletPoints lamp = Responded '' Generated copy ''"
    "provider adCopy_fails (length (calls start) + 2) aContent lamp = Responded '' Generated copy ''"
    "provider adCopy_fails (length (calls start) + 3) adCopy lamp = Threw server_error"
    by (simp_all add: adCopy_fails_def env_of_def)
  from generateAllContent_isolates_failures
         [OF h, of "'' Generated copy ''" "'' Generated copy ''" "'' Generated copy ''" server_error]
  obtain r w' where "generateAllContent adCopy_fails start lamp = (Inr r, w')"
     "calls w' = calls start @ [(title, lamp), (bulletPoints, lamp), (aContent, lamp), (adCopy, lamp)]"
     "data r title = Some (trim '' Generated copy '')"
     "data r bulletPoints = Some (trim '' Generated copy '')"
     "data r aContent = Some (trim '' Generated copy '')" "data r adCopy = None"
     "\<exists>m. failures r = [(adCopy, m)]" "status r = ''partial_success''"
    using p by blast
  with h t show ?thesis by (simp add: start_def)
qed

text \<open>
  Claim C4. For a record that passes validation, \<open>generateAllContent\<close> returns normally
  and the status is \<open>success\<close> exactly when there is no failure and \<open>partial_success\<close>
  exactly when there is one, \<open>errors\<close> being left undefined exactly in the first case.
  When all four attempts throw, the result still comes back, with \<open>partial_success\<close>
  and four failures, one per content type in order.
\<close>

theorem generateAllContent_status:
  assumes "fst (validateProductData en w d) = Inr ()"
  shows "\<exists>r w'. generateAllContent en w d = (Inr r, w')
     \<and> (status r = ''success'') = (failures r = [])
     \<and> (status r = ''partial_success'') = (failures r \<noteq> [])
     \<and> (errors r = None) = (failures r = [])
     \<and> ((\<forall>i<4. threw (provider en (length (calls w) + i) (contentTypes ! i) d))
          \<longrightarrow> status r = ''partial_success'' \<and> length (failures r) = 4
              \<and> map fst (failures r) = [title, bulletPoints, aContent, adCopy])"
proof -
  from assms have "passes_validation d" by (simp add: validate_Inr_iff)
  from generateAllContent_summary [OF this, of en w]
  obtain r w' where g: "generateAllContent en w d = (Inr r, w')"
    and f: "failures r = List.map_filter (failure_entry en d) (enumerate (length (calls w)) contentTypes)"
    and st: "status r = (if failures r = [] then ''success'' else ''partial_success'')"
    and er: "errors r = (if failures r = [] then None else Some (failures r))"
    by blast
  have s1: "(status r = ''success'') = (failures r = [])"
    and s2: "(status r = ''partial_success'') = (failures r \<noteq> [])"
    and s3: "(errors r = None) = (failures r = [])"
    using st er by simp_all
  have a: "status r = ''partial_success'' \<and> length (failures r) = 4
              \<and> map fst (failures r) = [title, bulletPoints, aContent, adCopy]"
    if t: "\<forall>i<4. threw (provider en (length (calls w) + i) (contentTypes ! i) d)"
  proof -
    from t [rule_format, of 0] t [rule_format, of 1] t [rule_format, of 2] t [rule_format, of 3]
    have "threw (provider en (length (calls w)) title d)"
      "threw (provider en (length (calls w) + 1) bulletPoints d)"
      "threw (provider en (length (calls w) + 2) aContent d)"
      "threw (provider en (length (calls w) + 3) adCopy d)"
      by (simp_all add: contentTypes_def)
    then have "map fst (failures r) = [title, bulletPoints, aContent, adCopy]"
      unfolding f enumerate_contentTypes
      by (auto simp: failure_entry_def split: outcome.splits)
    moreover from this have "length (map fst (failures r)) = 4" by simp
    ultimately show ?thesis using st by auto
  qed
  show ?thesis
  proof (intro exI conjI impI)
    show "generateAllContent en w d = (Inr r, w')" by (rule g)
    show "(status r = ''success'') = (failures r = [])" by (rule s1)
    show "(status r = ''partial_success'') = (failures r \<noteq> [])" by (rule s2)
    show "(errors r = None) = (failures r = [])" by (rule s3)
    assume t: "\<forall>i<4. threw (provider en (length (calls w) + i) (contentTypes ! i) d)"
    from a [OF t] show "status r = ''partial_success''" "length (failures r) = 4"
      "map fst (failures r) = [title, bulletPoints, aContent, adCopy]"
      by simp_all
  qed
qed

theorem generateAllContent_status_witness:
  "fst (validateProductData all_fail start lamp) = Inr ()
   \<and> threw (provider all_fail (length (calls start)) title lamp)
   \<and> threw (provider all_fail (length (calls start) + 1) bulletPoints lamp)
   \<and> threw (provider all_fail (length (calls start) + 2) aContent lamp)
   \<and> threw (provider all_fail (length (calls start) + 3) adCopy lamp)
   \<and> (\<exists>r w'. generateAllContent all_fail start lamp = (Inr r, w')
        \<and> failures r \<noteq> [] \<and> errors r \<noteq> None
        \<and> status r = ''partial_success'' \<and> length (failures r) = 4
        \<and> map fst (failures r) = [title, bulletPoints, aContent, adCopy])"
proof -
  have h: "fst (validateProductData all_fail start lamp) = Inr ()"
    by (simp add: validate_passes lamp_passes)
  have t: "\<forall>i<4. threw (provider all_fail (length (calls start) + i) (contentTypes ! i) lamp)"
    by (simp add: all_fail_def env_of_def)
  from generateAllContent_status [OF h]
  obtain r w' where g: "generateAllContent all_fail start lamp = (Inr r, w')"
    and s2: "(status r = ''partial_success'') = (failures r \<noteq> [])"
    and s3: "(errors r = None) = (failures r = [])"
    and a: "(\<forall>i<4. threw (provider all_fail (length (calls start) + i) (contentTypes ! i) lamp))
          \<longrightarrow> status r = ''partial_success'' \<and> length (failures r) = 4
              \<and> map fst (failures r) = [title, bulletPoints, aContent, adCopy]"
    by (elim exE conjE)
  from a t have b: "status r = ''partial_success''" "length (failures r) = 4"
    "map fst (failures r) = [title, bulletPoints, aContent, adCopy]"
    by simp_all
  from b(1) s2 have n: "failures r \<noteq> []" by simp
  with s3 have e: "errors r \<noteq> None" by simp
  have t4: "threw (provider all_fail (length (calls start)) title lamp)"
    "threw (provider all_fail (length (calls start) + 1) bulletPoints lamp)"
    "threw (provider all_fail (length (calls start) + 2) aContent lamp)"
    "threw (provider all_fail (length (calls start) + 3) adCopy lamp)"
    by (simp_all add: all_fail_def env_of_def)
  from h t4 g n e b show ?thesis by simp
qed

text \<open>
  Claim C5, as the code has it. A rejection of the credentials (status 401) during one of
  the four attempts is recorded like any other failure: the entry of that content type
  carries the message \<open>Invalid OpenAI API key\<close>, the other content types are still
  attempted, and the result is returned with status \<open>partial_success\<close>.
\<close>

theorem generateAllContent_records_rejected_credentials:
  assumes "fst (validateProductData en w d) = Inr ()"
    and "i < 4"
    and "provider en (length (calls w) + i) (contentTypes ! i) d = Threw e"
    and "f_status e = Some 401"
  shows "\<exists>r w'. generateAllContent en w d = (Inr r, w')
     \<and> status r = ''partial_success''
     \<and> (contentTypes ! i, ''Invalid OpenAI API key'') \<in> set (failures r)
     \<and> calls w' = calls w @ [(title, d), (bulletPoints, d), (aContent, d), (adCopy, d)]"
proof -
  from assms(1) have "passes_validation d" by (simp add: validate_Inr_iff)
  from generateAllContent_summary [OF this, of en w]
  obtain r w' where g: "generateAllContent en w d = (Inr r, w')"
    and f: "failures r = List.map_filter (failure_entry en d) (enumerate (length (calls w)) contentTypes)"
    and st: "status r = (if failures r = [] then ''success'' else ''partial_success'')"
    and c: "calls w' = calls w @ map (\<lambda>k. (k, d)) contentTypes"
    by blast
  have m: "(contentTypes ! i, ''Invalid OpenAI API key'') \<in> set (failures r)"
    using less_4_cases [OF assms(2)] assms(3,4) unfolding f enumerate_contentTypes
    by (auto simp: contentTypes_def failure_entry_def thrown_message_def split: outcome.splits)
  then have "failures r \<noteq> []" by auto
  with st have "status r = ''partial_success''" by simp
  with g m c show ?thesis by (simp add: contentTypes_def)
qed

theorem generateAllContent_records_rejected_credentials_witness:
  "fst (validateProductData title_unauthorized start lamp) = Inr ()
   \<and> provider title_unauthorized (length (calls start) + 0) (contentTypes ! 0) lamp = Threw unauthorized
   \<and> f_status unauthorized = Some 401
   \<and> (\<exists>r w'. generateAllContent title_unauthorized start lamp = (Inr r, w')
        \<and> status r = ''partial_success''
        \<and> (title, ''Invalid OpenAI API key'') \<in> set (failures r)
        \<and> calls w' = [(title, lamp), (bulletPoints, lamp), (aContent, lamp), (adCopy, lamp)])"
proof -
  have h: "fst (validateProductData title_unauthorized start lamp) = Inr ()"
    by (simp add: validate_passes lamp_passes)
  have p: "provider title_unauthorized (length (calls start) + 0) (contentTypes ! 0) lamp
            = Threw unauthorized"
    by (simp add: title_unauthorized_def env_of_def contentTypes_def)
  have s: "f_status unauthorized = Some 401"
    by (simp add: unauthorized_def)
  from generateAllContent_records_rejected_credentials [OF h _ p s] h p s
  show ?thesis by (simp add: contentTypes_def start_def)
qed

theorem rejected_credentials_not_fatal_counterexample:
  "\<not> isl (fst (generateAllContent title_unauthorized start lamp))
   \<and> status (projr (fst (generateAllContent title_unauthorized start lamp))) = ''partial_success''
   \<and> errors (projr (fst (generateAllContent title_unauthorized start lamp)))
       = Some [(title, ''Invalid OpenAI API key'')]
   \<and> data (projr (fst (generateAllContent title_unauthorized start lamp))) bulletPoints
       = Some ''Generated copy''
   \<and> map fst (calls (snd (generateAllContent title_unauthorized start lamp)))
       = [title, bulletPoints, aContent, adCopy]"
  by (simp add: generateAllContent_def validate_passes lamp_passes contentTypes_def
      generateContent_def title_unauthorized_def env_of_def start_def unauthorized_def
      new_OpenAIError_def new_APIError_def tick_def trim_def is_ws_def)

text \<open>
  Claim C6, as the code has it. Take a record whose name and category are each a string
  or falsy, and whose price is not an object without a primitive value. The validator
  returns without throwing, and leaves everything as it was, exactly when no check fires.
  Otherwise it throws one \<open>ValidationError\<close> (status code 400, code
  \<open>VALIDATION_ERROR\<close>) whose message is the messages of all the checks that fire, in
  the order name, category, price, features, joined with \<open>; \<close>. The checks are those of
  \<open>violations\<close>: name, or category, falsy or blank once trimmed; price not undefined and
  \<open>isNaN(price) || parseFloat(price) < 0\<close>, which for a number means NaN or negative;
  features truthy and not a string. It never calls the provider.
\<close>

theorem validateProductData_lists_all_violations:
  assumes "is_string (name d) \<or> \<not> truthy (name d)"
    and "is_string (category d) \<or> \<not> truthy (category d)"
    and "price d \<noteq> JObject None"
  shows "(violations d = [] \<longrightarrow> validateProductData en w d = (Inr (), w))
     \<and> (violations d \<noteq> [] \<longrightarrow>
          (\<exists>e. validateProductData en w d = (Inl (Api e), tick w)
             \<and> cls e = ValidationError \<and> statusCode e = 400 \<and> code e = ''VALIDATION_ERROR''
             \<and> message e = join ''; '' (violations d)))
     \<and> (price d = JNum n \<longrightarrow>
          (''Product price must be a valid positive number'' \<in> set (violations d))
            = (n = NaN \<or> lt_zero n))
     \<and> calls (snd (validateProductData en w d)) = calls w"
proof -
  from assms missing_or_blank_defined [of "name d"] missing_or_blank_defined [of "category d"]
    price_rejected_defined [of "price d"]
  have a: "missing_or_blank (name d) \<noteq> None" "missing_or_blank (category d) \<noteq> None"
    "price_rejected (price d) \<noteq> None"
    by blast+
  note v = validate_violations [OF a, of en w]
  have 1: "violations d = [] \<longrightarrow> validateProductData en w d = (Inr (), w)"
    using v by simp
  have 2: "violations d \<noteq> [] \<longrightarrow>
          (\<exists>e. validateProductData en w d = (Inl (Api e), tick w)
             \<and> cls e = ValidationError \<and> statusCode e = 400 \<and> code e = ''VALIDATION_ERROR''
             \<and> message e = join ''; '' (violations d))"
    using v by simp
  have 3: "price d = JNum n \<longrightarrow>
          (''Product price must be a valid positive number'' \<in> set (violations d))
            = (n = NaN \<or> lt_zero n)"
    by (simp add: violations_def price_rejected_number)
  from 1 2 3 validate_calls [of en w d] show ?thesis by blast
qed

theorem validateProductData_lists_all_violations_witness:
  "is_string (name three_violations) \<and> is_string (category three_violations)
   \<and> price three_violations \<noteq> JObject None
   \<and> is_string (name lamp) \<and> is_string (category lamp) \<and> price lamp \<noteq> JObject None
   \<and> violations lamp = [] \<and> validateProductData all_respond start lamp = (Inr (), start)
   \<and> (\<exists>e. validateProductData all_respond start three_violations = (Inl (Api e), tick start)
        \<and> cls e = ValidationError \<and> statusCode e = 400
        \<and> message e = ''Product name is required; Product price must be a valid positive number; Product features must be a string'')"
proof -
  have a: "is_string (name three_violations) \<or> \<not> truthy (name three_violations)"
    "is_string (category three_violations) \<or> \<not> truthy (category three_violations)"
    "price three_violations \<noteq> JObject None"
    by (simp_all add: three_violations_def lamp_def)
  have b: "is_string (name lamp) \<or> \<not> truthy (name lamp)"
    "is_string (category lamp) \<or> \<not> truthy (category lamp)" "price lamp \<noteq> JObject None"
    by (simp_all add: lamp_def)
  from validateProductData_lists_all_violations [OF b, of all_respond start] lamp_violations
  have 1: "validateProductData all_respond start lamp = (Inr (), start)" by simp
  from validateProductData_lists_all_violations [OF a, of all_respond start] three_violations_list
  have 2: "\<exists>e. validateProductData all_respond start three_violations = (Inl (Api e), tick start)
        \<and> cls e = ValidationError \<and> statusCode e = 400
        \<and> message e = ''Product name is required; Product price must be a valid positive number; Product features must be a string''"
    by auto
  have c: "is_string (name lamp)" "is_string (category lamp)"
    "is_string (name three_violations)" "is_string (category three_violations)"
    by (simp_all add: lamp_def three_violations_def)
  from a(3) b(3) c lamp_violations 1 2 show ?thesis by simp
qed

theorem validateProductData_accepts_null_price_counterexample:
  "price (lamp\<lparr>price := JNull\<rparr>) = JNull
   \<and> validateProductData all_respond start (lamp\<lparr>price := JNull\<rparr>) = (Inr (), start)
   \<and> features (lamp\<lparr>features := JBool False\<rparr>) = JBool False
   \<and> validateProductData all_respond start (lamp\<lparr>features := JBool False\<rparr>) = (Inr (), start)"
  by (simp add: validateProductData_def lamp_def price_null price_19_99 features_rejected_def
      trim_def is_ws_def)

text \<open>
  Claim C7. The error middleware answers a \<open>QuotaError\<close> with status 429 and a payload
  whose code is \<open>QUOTA_EXCEEDED\<close>. An error that is no \<open>APIError\<close> and whose status is
  none of 429, 401 and 500 or more gets the code \<open>UNKNOWN_ERROR\<close>, with its own message
  when it has a non-empty one and \<open>An unexpected error occurred\<close> otherwise. Whatever the
  error, the keys of the payload are among \<open>error\<close>, \<open>code\<close>, \<open>field\<close> and
  \<open>timestamp\<close>, and the payload does not depend on the stack trace of the error.
\<close>

theorem formatErrorResponse_payload:
  "fst (fst (errorHandler en w' (Api (fst (new_QuotaError en w msg))))) = 429
   \<and> map_of (snd (fst (errorHandler en w' (Api (fst (new_QuotaError en w msg)))))) ''code''
       = Some (JStr ''QUOTA_EXCEEDED'')
   \<and> (f_status e = None \<or> (\<exists>n. f_status e = Some n \<and> n < 500 \<and> n \<noteq> 429 \<and> n \<noteq> 401) \<longrightarrow>
        map_of (fst (formatErrorResponse en w (Foreign e))) ''code'' = Some (JStr ''UNKNOWN_ERROR'')
        \<and> (f_message e = Some m \<and> m \<noteq> [] \<longrightarrow>
              map_of (fst (formatErrorResponse en w (Foreign e))) ''error'' = Some (JStr m))
        \<and> (f_message e = None \<or> f_message e = Some [] \<longrightarrow>
              map_of (fst (formatErrorResponse en w (Foreign e))) ''error''
                = Some (JStr ''An unexpected error occurred'')))
   \<and> fst ` set (fst (formatErrorResponse en w err)) \<subseteq> {''error'', ''code'', ''field'', ''timestamp''}
   \<and> ''stack'' \<notin> fst ` set (fst (formatErrorResponse en w err))
   \<and> formatErrorResponse en w (Api (a\<lparr>stack := s\<rparr>)) = formatErrorResponse en w (Api a)
   \<and> formatErrorResponse en w (Foreign (e\<lparr>f_stack := s'\<rparr>)) = formatErrorResponse en w (Foreign e)"
proof (intro conjI)
  show "fst (fst (errorHandler en w' (Api (fst (new_QuotaError en w msg))))) = 429"
    by (simp add: errorHandler_def formatErrorResponse_def new_QuotaError_def new_APIError_def)
  show "map_of (snd (fst (errorHandler en w' (Api (fst (new_QuotaError en w msg)))))) ''code''
       = Some (JStr ''QUOTA_EXCEEDED'')"
    by (simp add: errorHandler_def formatErrorResponse_def new_QuotaError_def new_APIError_def)
  show "f_status e = None \<or> (\<exists>n. f_status e = Some n \<and> n < 500 \<and> n \<noteq> 429 \<and> n \<noteq> 401) \<longrightarrow>
        map_of (fst (formatErrorResponse en w (Foreign e))) ''code'' = Some (JStr ''UNKNOWN_ERROR'')
        \<and> (f_message e = Some m \<and> m \<noteq> [] \<longrightarrow>
              map_of (fst (formatErrorResponse en w (Foreign e))) ''error'' = Some (JStr m))
        \<and> (f_message e = None \<or> f_message e = Some [] \<longrightarrow>
              map_of (fst (formatErrorResponse en w (Foreign e))) ''error''
                = Some (JStr ''An unexpected error occurred''))"
    by (auto simp: formatErrorResponse_def status_at_least_500_def or_default_def)
  show "fst ` set (fst (formatErrorResponse en w err)) \<subseteq> {''error'', ''code'', ''field'', ''timestamp''}"
    by (cases err) (simp_all add: formatErrorResponse_def)
  show "''stack'' \<notin> fst ` set (fst (formatErrorResponse en w err))"
    by (cases err) (simp_all add: formatErrorResponse_def)
  show "formatErrorResponse en w (Api (a\<lparr>stack := s\<rparr>)) = formatErrorResponse en w (Api a)"
    by (simp add: formatErrorResponse_def)
  show "formatErrorResponse en w (Foreign (e\<lparr>f_stack := s'\<rparr>)) = formatErrorResponse en w (Foreign e)"
    by (simp add: formatErrorResponse_def)
qed

theorem formatErrorResponse_payload_witness:
  "f_status not_a_function = None \<and> f_message not_a_function = Some ''x is not a function''
   \<and> map_of (fst (formatErrorResponse all_respond start (Foreign not_a_function))) ''code''
       = Some (JStr ''UNKNOWN_ERROR'')
   \<and> map_of (fst (formatErrorResponse all_respond start (Foreign not_a_function))) ''error''
       = Some (JStr ''x is not a function'')
   \<and> f_status thrown_string = None \<and> f_message thrown_string = None
   \<and> map_of (fst (formatErrorResponse all_respond start (Foreign thrown_string))) ''code''
       = Some (JStr ''UNKNOWN_ERROR'')
   \<and> map_of (fst (formatErrorResponse all_respond start (Foreign thrown_string))) ''error''
       = Some (JStr ''An unexpected error occurred'')"
proof -
  have s: "f_status not_a_function = None" "f_message not_a_function = Some ''x is not a function''"
    "f_status thrown_string = None" "f_message thrown_string = None"
    by (simp_all add: not_a_function_def thrown_string_def)
  from formatErrorResponse_payload
         [where en = all_respond and w = start and e = not_a_function
            and m = "''x is not a function''"] s
  have 1: "map_of (fst (formatErrorResponse all_respond start (Foreign not_a_function))) ''code''
       = Some (JStr ''UNKNOWN_ERROR'')"
    "map_of (fst (formatErrorResponse all_respond start (Foreign not_a_function))) ''error''
       = Some (JStr ''x is not a function'')"
    by simp_all
  from formatErrorResponse_payload [where en = all_respond and w = start and e = thrown_string] s
  have 2: "map_of (fst (formatErrorResponse all_respond start (Foreign thrown_string))) ''code''
       = Some (JStr ''UNKNOWN_ERROR'')"
    "map_of (fst (formatErrorResponse all_respond start (Foreign thrown_string))) ''error''
       = Some (JStr ''An unexpected error occurred'')"
    by simp_all
  from s 1 2 show ?thesis by simp
qed

text \<open>
  Claim C8. When the attempt throws, \<open>generateContent\<close> throws in turn, by the status
  of what was thrown: 429 gives a \<open>QuotaError\<close>; 401 gives the error of rejected
  credentials (an \<open>OpenAIError\<close> with status code 401 and the message
  \<open>Invalid OpenAI API key\<close>); anything else gives an \<open>OpenAIError\<close> with status code
  500 whose message names the content type and ends with the message of what was thrown.
\<close>

theorem generateContent_classifies_failure:
  assumes "provider en (length (calls w)) ct d = Threw e"
  shows "\<exists>a w'. generateContent en w ct d = (Inl a, w')
     \<and> (f_status e = Some 429 \<longrightarrow>
           cls a = QuotaError \<and> statusCode a = 429 \<and> code a = ''QUOTA_EXCEEDED'')
     \<and> (f_status e = Some 401 \<longrightarrow>
           cls a = OpenAIError \<and> statusCode a = 401 \<and> message a = ''Invalid OpenAI API key'')
     \<and> (f_status e \<noteq> Some 429 \<and> f_status e \<noteq> Some 401 \<longrightarrow>
           cls a = OpenAIError \<and> statusCode a = 500 \<and> code a = ''OPENAI_ERROR''
           \<and> (f_message e = Some m \<longrightarrow>
                 message a = ''Failed to generate '' @ contentType_name ct @ '': '' @ m)
           \<and> (f_message e = None \<longrightarrow>
                 message a = ''Failed to generate '' @ contentType_name ct @ '': undefined''))"
  using assms
  by (simp add: generateContent_def new_QuotaError_def new_OpenAIError_def new_APIError_def
        template_string_def Let_def)

theorem generateContent_classifies_failure_witness:
  "provider quota_exhausted (length (calls start)) title lamp = Threw rate_limited
   \<and> f_status rate_limited = Some 429
   \<and> (\<exists>a w'. generateContent quota_exhausted start title lamp = (Inl a, w')
        \<and> cls a = QuotaError \<and> statusCode a = 429 \<and> code a = ''QUOTA_EXCEEDED'')
   \<and> provider title_unauthorized (length (calls start)) title lamp = Threw unauthorized
   \<and> f_status unauthorized = Some 401
   \<and> (\<exists>a w'. generateContent title_unauthorized start title lamp = (Inl a, w')
        \<and> cls a = OpenAIError \<and> statusCode a = 401 \<and> message a = ''Invalid OpenAI API key'')
   \<and> provider adCopy_fails (length (calls start)) adCopy lamp = Threw server_error
   \<and> f_status server_error = Some 503 \<and> f_message server_error = Some ''upstream timeout''
   \<and> (\<exists>a w'. generateContent adCopy_fails start adCopy lamp = (Inl a, w')
        \<and> cls a = OpenAIError \<and> statusCode a = 500
        \<and> message a = ''Failed to generate adCopy: upstream timeout'')"
proof -
  have p1: "provider quota_exhausted (length (calls start)) title lamp = Threw rate_limited"
    by (simp add: quota_exhausted_def env_of_def)
  have p2: "provider title_unauthorized (length (calls start)) title lamp = Threw unauthorized"
    by (simp add: title_unauthorized_def env_of_def)
  have p3: "provider adCopy_fails (length (calls start)) adCopy lamp = Threw server_error"
    by (simp add: adCopy_fails_def env_of_def)
  have s: "f_status rate_limited = Some 429" "f_status unauthorized = Some 401"
    "f_status server_error = Some 503" "f_message server_error = Some ''upstream timeout''"
    by (simp_all add: rate_limited_def unauthorized_def server_error_def)
  from generateContent_classifies_failure [OF p1] s
  have 1: "\<exists>a w'. generateContent quota_exhausted start title lamp = (Inl a, w')
        \<and> cls a = QuotaError \<and> statusCode a = 429 \<and> code a = ''QUOTA_EXCEEDED''"
    by simp
  from generateContent_classifies_failure [OF p2] s
  have 2: "\<exists>a w'. generateContent title_unauthorized start title lamp = (Inl a, w')
        \<and> cls a = OpenAIError \<and> statusCode a = 401 \<and> message a = ''Invalid OpenAI API key''"
    by simp
  from generateContent_classifies_failure [OF p3, of "''upstream timeout''"] s
  have 3: "\<exists>a w'. generateContent adCopy_fails start adCopy lamp = (Inl a, w')
        \<and> cls a = OpenAIError \<and> statusCode a = 500
        \<and> message a = ''Failed to generate adCopy: upstream timeout''"
    by auto
  from p1 p2 p3 s 1 2 3 show ?thesis by simp
qed

text \<open>
  Claim C9, as the code has it. For a record whose name and category are strings that are
  not blank: with the price \<open>19.99\<close> (a string) the validator returns without throwing,
  provided the features are falsy or a string; with the price \<open>-5\<close> (a string) it throws
  a \<open>ValidationError\<close> whose message contains the message of the price check, and so
  mentions \<open>price\<close>, whatever the features.
\<close>

theorem price_string_validation:
  assumes "name d = JStr n" and "trim n \<noteq> []" and "category d = JStr c" and "trim c \<noteq> []"
  shows "(price d = JStr ''19.99'' \<and> (is_string (features d) \<or> \<not> truthy (features d))
            \<longrightarrow> validateProductData en w d = (Inr (), w))
     \<and> (price d = JStr ''-5'' \<longrightarrow>
           (\<exists>e. validateProductData en w d = (Inl (Api e), tick w)
              \<and> cls e = ValidationError
              \<and> ''Product price must be a valid positive number'' \<in> set (violations d)
              \<and> message e = join ''; '' (violations d)
              \<and> mentions (message e) ''price''))"
proof -
  from assms have nc: "missing_or_blank (name d) = Some False"
    "missing_or_blank (category d) = Some False"
    by (simp_all add: trim_not_Nil)
  have 1: "validateProductData en w d = (Inr (), w)"
    if "price d = JStr ''19.99''" "is_string (features d) \<or> \<not> truthy (features d)"
    using that nc by (intro validate_passes) (auto simp: passes_validation_def price_19_99 features_rejected_def)
  have 2: "\<exists>e. validateProductData en w d = (Inl (Api e), tick w)
              \<and> cls e = ValidationError
              \<and> ''Product price must be a valid positive number'' \<in> set (violations d)
              \<and> message e = join ''; '' (violations d)
              \<and> mentions (message e) ''price''"
    if p: "price d = JStr ''-5''"
  proof -
    from nc p have v: "violations d = ''Product price must be a valid positive number''
        # (if features_rejected (features d) then [''Product features must be a string''] else [])"
      by (simp add: violations_def price_minus_5)
    then have j: "join ''; '' (violations d) = ''Product price must be a valid positive number''
        @ (if features_rejected (features d) then ''; Product features must be a string'' else [])"
      by simp
    from nc p have "missing_or_blank (name d) \<noteq> None" "missing_or_blank (category d) \<noteq> None"
      "price_rejected (price d) \<noteq> None"
      by (simp_all add: price_minus_5)
    from validate_violations [OF this, of en w] v
    have "validateProductData en w d =
       (Inl (Api \<lparr>cls = ValidationError, message = join ''; '' (violations d),
               statusCode = 400, code = ''VALIDATION_ERROR'', timestamp = clock en (ticks w),
               field = None, stack = trace en (ticks w)\<rparr>), tick w)"
      by simp
    moreover have "mentions (join ''; '' (violations d)) ''price''"
      unfolding j by (rule mentions_price)
    moreover have "''Product price must be a valid positive number'' \<in> set (violations d)"
      using v by simp
    ultimately show ?thesis by simp
  qed
  from 1 2 show ?thesis by blast
qed

theorem price_string_validation_witness:
  "name lamp = JStr ''Desk Lamp'' \<and> trim ''Desk Lamp'' \<noteq> []
   \<and> category lamp = JStr ''Lighting'' \<and> trim ''Lighting'' \<noteq> []
   \<and> price lamp = JStr ''19.99'' \<and> is_string (features lamp)
   \<and> validateProductData all_respond start lamp = (Inr (), start)
   \<and> price (numeric_features\<lparr>price := JStr ''-5''\<rparr>) = JStr ''-5''
   \<and> (\<exists>e. validateProductData all_respond start (numeric_features\<lparr>price := JStr ''-5''\<rparr>)
            = (Inl (Api e), tick start)
        \<and> cls e = ValidationError \<and> mentions (message e) ''price'')"
proof -
  have a: "name lamp = JStr ''Desk Lamp''" "trim ''Desk Lamp'' \<noteq> []"
    "category lamp = JStr ''Lighting''" "trim ''Lighting'' \<noteq> []"
    "price lamp = JStr ''19.99''" "is_string (features lamp)"
    by (simp_all add: lamp_def trim_def is_ws_def)
  have b: "name (numeric_features\<lparr>price := JStr ''-5''\<rparr>) = JStr ''Desk Lamp''"
    "category (numeric_features\<lparr>price := JStr ''-5''\<rparr>) = JStr ''Lighting''"
    "price (numeric_features\<lparr>price := JStr ''-5''\<rparr>) = JStr ''-5''"
    by (simp_all add: numeric_features_def lamp_def)
  from price_string_validation [OF a(1-4), of all_respond start] a(5,6)
  have 1: "validateProductData all_respond start lamp = (Inr (), start)" by simp
  from price_string_validation [OF b(1) a(2) b(2) a(4), of all_respond start] b(3)
  have 2: "\<exists>e. validateProductData all_respond start (numeric_features\<lparr>price := JStr ''-5''\<rparr>)
            = (Inl (Api e), tick start)
        \<and> cls e = ValidationError \<and> mentions (message e) ''price''"
    by auto
  from a b(3) 1 2 show ?thesis by simp
qed

theorem price_string_validation_counterexample:
  "name numeric_features = JStr ''Desk Lamp'' \<and> category numeric_features = JStr ''Lighting''
   \<and> price numeric_features = JStr ''19.99''
   \<and> fst (validateProductData all_respond start numeric_features) =
        Inl (Api \<lparr>cls = ValidationError, message = ''Product features must be a string'',
                  statusCode = 400, code = ''VALIDATION_ERROR'',
                  timestamp = ''2024-05-01T10:00:00.000Z'', field = None,
                  stack = ''Error at server.js''\<rparr>)"
  by (simp add: validateProductData_def numeric_features_def lamp_def price_19_99
      features_rejected_def new_ValidationError_def new_APIError_def trim_def is_ws_def
      all_respond_def env_of_def start_def)

text \<open>
  Claim C10, as the code has it. For a record whose name and category are strings that
  are not blank and whose price is \<open>null\<close> or the empty string: \<open>isNaN\<close> of the price
  is false, \<open>parseFloat\<close> of it is NaN, which is not less than zero, so the price check
  does not fire; the validator returns without throwing when the features are falsy or a
  string, and otherwise throws with the message of the features check alone.
\<close>

theorem empty_price_not_rejected:
  assumes "name d = JStr n" and "trim n \<noteq> []" and "category d = JStr c" and "trim c \<noteq> []"
    and "price d = JNull \<or> price d = JStr []"
  shows "isNaN (price d) = Some False \<and> parseFloat (price d) = Some NaN \<and> \<not> lt_zero NaN
     \<and> ''Product price must be a valid positive number'' \<notin> set (violations d)
     \<and> (is_string (features d) \<or> \<not> truthy (features d)
           \<longrightarrow> validateProductData en w d = (Inr (), w))
     \<and> (truthy (features d) \<and> \<not> is_string (features d)
           \<longrightarrow> (\<exists>e. validateProductData en w d = (Inl (Api e), tick w)
                  \<and> cls e = ValidationError
                  \<and> message e = ''Product features must be a string''))"
proof -
  from assms have nc: "missing_or_blank (name d) = Some False"
    "missing_or_blank (category d) = Some False"
    by (simp_all add: trim_not_Nil)
  from assms(5) have pr: "price_rejected (price d) = Some False"
    by (auto simp: price_null price_empty)
  from assms(5) have 1: "isNaN (price d) = Some False"
    by (auto simp: isNaN_def literal_defs)
  from assms(5) have 2: "parseFloat (price d) = Some NaN"
    by (auto simp: literal_defs)
  from nc pr have v: "violations d =
      (if features_rejected (features d) then [''Product features must be a string''] else [])"
    by (simp add: violations_def)
  then have 3: "''Product price must be a valid positive number'' \<notin> set (violations d)"
    by simp
  from nc pr have "missing_or_blank (name d) \<noteq> None" "missing_or_blank (category d) \<noteq> None"
    "price_rejected (price d) \<noteq> None"
    by simp_all
  note vv = validate_violations [OF this, of en w]
  have 4: "is_string (features d) \<or> \<not> truthy (features d)
           \<longrightarrow> validateProductData en w d = (Inr (), w)"
    using vv v by (auto simp: features_rejected_def)
  have 5: "truthy (features d) \<and> \<not> is_string (features d)
           \<longrightarrow> (\<exists>e. validateProductData en w d = (Inl (Api e), tick w)
                  \<and> cls e = ValidationError
                  \<and> message e = ''Product features must be a string'')"
    using vv v by (auto simp: features_rejected_def)
  from 1 2 3 4 5 show ?thesis by simp
qed

theorem empty_price_not_rejected_witness:
  "name lamp = JStr ''Desk Lamp'' \<and> trim ''Desk Lamp'' \<noteq> []
   \<and> category lamp = JStr ''Lighting'' \<and> trim ''Lighting'' \<noteq> []
   \<and> is_string (features lamp)
   \<and> validateProductData all_respond start (lamp\<lparr>price := JNull\<rparr>) = (Inr (), start)
   \<and> validateProductData all_respond start (lamp\<lparr>price := JStr []\<rparr>) = (Inr (), start)
   \<and> truthy (features null_price_numeric_features)
   \<and> (\<exists>e. validateProductData all_respond start null_price_numeric_features
            = (Inl (Api e), tick start)
        \<and> message e = ''Product features must be a string'')"
proof -
  have a: "name lamp = JStr ''Desk Lamp''" "trim ''Desk Lamp'' \<noteq> []"
    "category lamp = JStr ''Lighting''" "trim ''Lighting'' \<noteq> []" "is_string (features lamp)"
    by (simp_all add: lamp_def trim_def is_ws_def)
  have b: "name (lamp\<lparr>price := x\<rparr>) = JStr ''Desk Lamp''"
    "category (lamp\<lparr>price := x\<rparr>) = JStr ''Lighting''"
    "is_string (features (lamp\<lparr>price := x\<rparr>))" for x
    by (simp_all add: lamp_def)
  have c: "name null_price_numeric_features = JStr ''Desk Lamp''"
    "category null_price_numeric_features = JStr ''Lighting''"
    "price null_price_numeric_features = JNull"
    "truthy (features null_price_numeric_features)"
    "\<not> is_string (features null_price_numeric_features)"
    by (simp_all add: null_price_numeric_features_def lamp_def)
  from empty_price_not_rejected [OF b(1) a(2) b(2) a(4), of JNull all_respond start] b(3)
  have 1: "validateProductData all_respond start (lamp\<lparr>price := JNull\<rparr>) = (Inr (), start)"
    by simp
  from empty_price_not_rejected [OF b(1) a(2) b(2) a(4), of "JStr []" all_respond start] b(3)
  have 2: "validateProductData all_respond start (lamp\<lparr>price := JStr []\<rparr>) = (Inr (), start)"
    by simp
  from empty_price_not_rejected [OF c(1) a(2) c(2) a(4), of all_respond start] c(3,4,5)
  have 3: "\<exists>e. validateProductData all_respond start null_price_numeric_features
            = (Inl (Api e), tick start)
        \<and> message e = ''Product features must be a string''"
    by auto
  from a c(4) 1 2 3 show ?thesis by simp
qed

theorem empty_price_not_rejected_counterexample:
  "name null_price_numeric_features = JStr ''Desk Lamp''
   \<and> category null_price_numeric_features = JStr ''Lighting''
   \<and> price null_price_numeric_features = JNull
   \<and> fst (validateProductData all_respond start null_price_numeric_features) =
        Inl (Api \<lparr>cls = ValidationError, message = ''Product features must be a string'',
                  statusCode = 400, code = ''VALIDATION_ERROR'',
                  timestamp = ''2024-05-01T10:00:00.000Z'', field = None,
                  stack = ''Error at server.js''\<rparr>)"
  by (simp add: validateProductData_def null_price_numeric_features_def lamp_def price_null
      features_rejected_def new_ValidationError_def new_APIError_def trim_def is_ws_def
      all_respond_def env_of_def start_def)

end
